theory Spec2Isabelle
  imports Main
begin

section \<open>Errors\<close>

text \<open>
  The exceptions that the notebooks' code can raise, as values. The complaints that the
  framework's \<open>load_state_dict\<close> collects before raising its RuntimeError are kept
  structured instead of being rendered into the message text.
\<close>

datatype problem =
    MissingKeys "string list"
  | UnexpectedKeys "string list"
  | SizeMismatch string "nat list" "nat list"
  | NegativeDimension int

datatype error =
    KeyError string
  | IndexError
  | TypeError
  | AttributeError
  | FileNotFoundError string
  | RuntimeError "problem list"
  | ZeroDivisionError

section \<open>The training loop (Training Neural Networks, "Training for real")\<close>

text \<open>
  The cell being modelled:
  \<^verbatim>\<open>
  epochs = 5
  for e in range(epochs):
      running_loss = 0
      for images, labels in trainloader:
          images = images.view(images.shape[0], -1)
          optimizer.zero_grad()
          out = model(images)
          loss = criterion(out, labels)
          loss.backward()
          optimizer.step()
          running_loss += loss.item()
      else:
          print(f"Training loss: {running_loss/len(trainloader)}")
  \<close>
  The forward pass, the criterion, the gradient that \<open>backward\<close> computes and the update
  that the optimizer applies belong to the framework; they are the fields of a record of
  functions. Loss values are floating-point numbers: the model uses only a zero and an
  addition on them (no law of arithmetic is assumed for them), and the division by the
  number of batches is a field of the same record. A batch is one element of the
  loader's sequence; flattening the images is part of \<open>forward_loss\<close>. The loader
  is the list of its batches, the same in every epoch: the reshuffling that the
  notebook's loader does between epochs changes their composition, not their number, and
  is left out.
\<close>

record ('p, 'b, 'g, 'l) torch =
  forward_loss :: "'p \<Rightarrow> 'b \<Rightarrow> 'l"
  loss_gradient :: "'p \<Rightarrow> 'b \<Rightarrow> 'g"
  sgd_update :: "'p \<Rightarrow> 'g \<Rightarrow> 'p"
  divide_by :: "'l \<Rightarrow> nat \<Rightarrow> 'l"

text \<open>
  The mutable state the loop works on: the parameters of \<open>model\<close>, their \<open>.grad\<close>
  (\<open>None\<close> until the first backward pass), and the lines printed so far.
\<close>

datatype 'l line = Training_loss 'l

record ('p, 'g, 'l) session =
  params :: 'p
  grad :: "'g option"
  printed :: "'l line list"

text \<open>
  \<open>optimizer.zero_grad()\<close> overwrites an existing gradient with zeros and leaves a
  missing one missing; \<open>loss.backward()\<close> adds the gradient of the loss to the stored
  one, or stores it when none is there; \<open>optimizer.step()\<close> updates the parameters from
  the stored gradient and skips parameters without one.
\<close>

definition zero_grad :: "('p, 'g::{zero,plus}, 'l) session \<Rightarrow> ('p, 'g, 'l) session" where
  "zero_grad s = s\<lparr>grad := map_option (\<lambda>_. 0) (grad s)\<rparr>"

definition backward ::
  "('p, 'b, 'g::{zero,plus}, 'l) torch \<Rightarrow> 'b \<Rightarrow> ('p, 'g, 'l) session \<Rightarrow> ('p, 'g, 'l) session" where
  "backward fw batch s =
     (let g = loss_gradient fw (params s) batch
      in s\<lparr>grad := Some (case grad s of None \<Rightarrow> g | Some acc \<Rightarrow> acc + g)\<rparr>)"

definition step :: "('p, 'b, 'g, 'l) torch \<Rightarrow> ('p, 'g, 'l) session \<Rightarrow> ('p, 'g, 'l) session" where
  "step fw s = (case grad s of None \<Rightarrow> s | Some g \<Rightarrow> s\<lparr>params := sgd_update fw (params s) g\<rparr>)"

text \<open>One pass of the inner loop body, on the pair of the session and \<open>running_loss\<close>.\<close>

definition training_pass ::
  "('p, 'b, 'g::{zero,plus}, 'l::{zero,plus}) torch \<Rightarrow> ('p, 'g, 'l) session \<times> 'l \<Rightarrow> 'b
     \<Rightarrow> ('p, 'g, 'l) session \<times> 'l" where
  "training_pass fw acc batch =
     (let s0 = zero_grad (fst acc);
          loss = forward_loss fw (params s0) batch;
          s1 = backward fw batch s0;
          s2 = step fw s1
      in (s2, snd acc + loss))"

text \<open>
  One iteration of the outer loop: \<open>running_loss = 0\<close>, the inner loop over the loader,
  then the \<open>else\<close> branch of the \<open>for\<close>, which always runs since the loop has no
  \<open>break\<close>. The division raises ZeroDivisionError when \<open>len(trainloader)\<close> is 0; the
  session keeps what the passes did to it.
\<close>

definition epoch ::
  "('p, 'b, 'g::{zero,plus}, 'l::{zero,plus}) torch \<Rightarrow> 'b list \<Rightarrow> ('p, 'g, 'l) session
     \<Rightarrow> ('p, 'g, 'l) session \<times> error option" where
  "epoch fw trainloader s =
     (let r = foldl (training_pass fw) (s, 0) trainloader
      in if length trainloader = 0 then (fst r, Some ZeroDivisionError)
         else (fst r\<lparr>printed := printed (fst r) @ [Training_loss (divide_by fw (snd r) (length trainloader))]\<rparr>,
               None))"

text \<open>\<open>for e in range(epochs)\<close>: an exception ends the loop.\<close>

fun training_loop ::
  "('p, 'b, 'g::{zero,plus}, 'l::{zero,plus}) torch \<Rightarrow> 'b list \<Rightarrow> nat \<Rightarrow> ('p, 'g, 'l) session
     \<Rightarrow> ('p, 'g, 'l) session \<times> error option" where
  "training_loop fw trainloader 0 s = (s, None)"
| "training_loop fw trainloader (Suc n) s =
     (case epoch fw trainloader s of
        (s', Some e) \<Rightarrow> (s', Some e)
      | (s', None) \<Rightarrow> training_loop fw trainloader n s')"

subsection \<open>What the claims compare the loop with\<close>

text \<open>
  The loss values of the successive batches of one epoch, each computed on the parameters
  as the earlier passes of that epoch left them.
\<close>

fun batch_losses ::
  "('p, 'b, 'g::{zero,plus}, 'l::{zero,plus}) torch \<Rightarrow> 'b list \<Rightarrow> ('p, 'g, 'l) session \<Rightarrow> 'l list" where
  "batch_losses fw [] s = []"
| "batch_losses fw (b # bs) s =
     forward_loss fw (params s) b # batch_losses fw bs (fst (training_pass fw (s, 0) b))"

text \<open>The line of one epoch, and the lines of \<open>n\<close> successive epochs.\<close>

definition mean_loss ::
  "('p, 'b, 'g::{zero,plus}, 'l::{zero,plus}) torch \<Rightarrow> 'b list \<Rightarrow> ('p, 'g, 'l) session \<Rightarrow> 'l" where
  "mean_loss fw trainloader s =
     divide_by fw (foldl (+) 0 (batch_losses fw trainloader s)) (length trainloader)"

fun epoch_lines ::
  "('p, 'b, 'g::{zero,plus}, 'l::{zero,plus}) torch \<Rightarrow> 'b list \<Rightarrow> nat \<Rightarrow> ('p, 'g, 'l) session
     \<Rightarrow> 'l line list" where
  "epoch_lines fw trainloader 0 s = []"
| "epoch_lines fw trainloader (Suc n) s =
     Training_loss (mean_loss fw trainloader s)
       # epoch_lines fw trainloader n (fst (epoch fw trainloader s))"

text \<open>
  Plain gradient descent, with no stored gradient at all: every step uses the gradient of
  the current batch's loss at the current parameters, and nothing else.
\<close>

definition descent_pass :: "('p, 'b, 'g, 'l) torch \<Rightarrow> 'p \<Rightarrow> 'b \<Rightarrow> 'p" where
  "descent_pass fw p batch = sgd_update fw p (loss_gradient fw p batch)"

definition descent :: "('p, 'b, 'g, 'l) torch \<Rightarrow> 'b list \<Rightarrow> nat \<Rightarrow> 'p \<Rightarrow> 'p" where
  "descent fw trainloader n p = ((\<lambda>q. foldl (descent_pass fw) q trainloader) ^^ n) p"

section \<open>Checkpoints (Saving and Loading Models)\<close>

subsection \<open>Arrays, Python values, files\<close>

text \<open>
  A tensor is its shape and its elements by flat index. The code of the notebook never
  computes on the elements, it only moves them, so their type is left open.
  \<open>param.copy_(input_param)\<close> overwrites the elements of \<open>param\<close> in place.
\<close>

datatype 'a tensor = Tensor (shape: "nat list") (elems: "nat \<Rightarrow> 'a")

definition tensor_copy :: "'a tensor \<Rightarrow> 'a tensor \<Rightarrow> 'a tensor" where
  "tensor_copy param input_param = Tensor (shape param) (elems input_param)"

text \<open>
  The Python values that a checkpoint file can hold. A \<open>dict\<close> (and the ordered
  dictionary that \<open>state_dict()\<close> returns) is an association list in insertion order,
  read with \<open>map_of\<close>.
\<close>

datatype 'a pyval =
    PInt int
  | PTensor "'a tensor"
  | PList "'a pyval list"
  | PDict "(string \<times> 'a pyval) list"

text \<open>
  \<open>checkpoint[key]\<close> with a string key: a missing key raises KeyError; a value that is
  no mapping cannot be indexed by a string.
\<close>

fun getitem :: "'a pyval \<Rightarrow> string \<Rightarrow> error + 'a pyval" where
  "getitem (PDict d) key = (case map_of d key of None \<Rightarrow> Inl (KeyError key) | Some v \<Rightarrow> Inr v)"
| "getitem _ key = Inl TypeError"

text \<open>
  The files on disk, by path. \<open>torch.save\<close> and \<open>torch.load\<close> are the framework's
  serializer, taken here as storing a value and giving the same value back.
\<close>

type_synonym 'a files = "string \<Rightarrow> 'a pyval option"

definition torch_save :: "'a pyval \<Rightarrow> string \<Rightarrow> 'a files \<Rightarrow> 'a files" where
  "torch_save obj path fs = fs(path \<mapsto> obj)"

definition torch_load :: "'a files \<Rightarrow> string \<Rightarrow> error + 'a pyval" where
  "torch_load fs path = (case fs path of None \<Rightarrow> Inl (FileNotFoundError path) | Some obj \<Rightarrow> Inr obj)"

subsection \<open>Layers and the network\<close>

text \<open>
  \<open>nn.Linear(in_features, out_features)\<close> keeps both numbers as attributes and owns a
  weight of shape \<open>[out_features, in_features]\<close> and a bias of shape \<open>[out_features]\<close>.
  Its initial elements are drawn at random by the framework: \<open>init\<close>, by parameter
  name, stands for that draw.
\<close>

record 'a linear =
  in_features :: nat
  out_features :: nat
  weight :: "'a tensor"
  bias :: "'a tensor"

definition Linear :: "(string \<Rightarrow> nat \<Rightarrow> 'a) \<Rightarrow> string \<Rightarrow> nat \<Rightarrow> nat \<Rightarrow> 'a linear" where
  "Linear init prefix i n =
     \<lparr>in_features = i, out_features = n,
      weight = Tensor [n, i] (init (prefix @ ''weight'')),
      bias = Tensor [n] (init (prefix @ ''bias''))\<rparr>"

text \<open>
  The network that the notebook prints:
  \<^verbatim>\<open>
  Network(
    (hidden_layers): ModuleList(
      (0): Linear(in_features=784, out_features=512, bias=True)
      (1): Linear(in_features=512, out_features=256, bias=True)
      (2): Linear(in_features=256, out_features=128, bias=True)
    )
    (output): Linear(in_features=128, out_features=10, bias=True)
    (dropout): Dropout(p=0.5)
  )
  \<close>
  The dropout module has no parameter and no entry in the state dict, and is the same in
  every network; the record leaves it out. (\<open>output\<close> is a keyword of Isabelle, so
  the field of that name is \<open>output_layer\<close>.)
\<close>

record 'a network =
  hidden_layers :: "'a linear list"
  output_layer :: "'a linear"

text \<open>Python's \<open>str\<close> of a list index, which names the layers of a ModuleList.\<close>

definition digit :: "nat \<Rightarrow> char" where
  "digit d = char_of (48 + d)"

fun str :: "nat \<Rightarrow> string" where
  "str n = (if n < 10 then [digit n] else str (n div 10) @ [digit (n mod 10)])"

declare str.simps [simp del]

definition hidden_prefix :: "nat \<Rightarrow> string" where
  "hidden_prefix k = ''hidden_layers.'' @ str k @ ''.''"

text \<open>A size handed to the framework must be an integer, and not a negative one.\<close>

fun as_size :: "'a pyval \<Rightarrow> error + nat" where
  "as_size (PInt i) = (if i < 0 then Inl (RuntimeError [NegativeDimension i]) else Inr (nat i))"
| "as_size _ = Inl TypeError"

fun as_sizes :: "'a pyval list \<Rightarrow> error + nat list" where
  "as_sizes [] = Inr []"
| "as_sizes (v # vs) =
     (case as_size v of
        Inl e \<Rightarrow> Inl e
      | Inr n \<Rightarrow> (case as_sizes vs of Inl e \<Rightarrow> Inl e | Inr ns \<Rightarrow> Inr (n # ns)))"

text \<open>The hidden layers from index \<open>k\<close> on: each takes the width of the one before.\<close>

fun hidden_stack :: "(string \<Rightarrow> nat \<Rightarrow> 'a) \<Rightarrow> nat \<Rightarrow> nat \<Rightarrow> nat list \<Rightarrow> 'a linear list" where
  "hidden_stack init k i [] = []"
| "hidden_stack init k i (h # hs) = Linear init (hidden_prefix k) i h # hidden_stack init (Suc k) h hs"

text \<open>
  Modelled from the spec: the class \<open>fc_model.Network\<close>, whose module is not among the
  sources. The spec has it "instantiate a model of the recorded shape" from an input
  size, an output size and the sequence of hidden-layer widths; the layers and their
  order are those of the printed network above. The first hidden layer is built from
  the first width, so an empty sequence raises IndexError, and a value that is no
  sequence or no integer a TypeError.
\<close>

fun Network ::
  "(string \<Rightarrow> nat \<Rightarrow> 'a) \<Rightarrow> 'a pyval \<Rightarrow> 'a pyval \<Rightarrow> 'a pyval \<Rightarrow> error + 'a network" where
  "Network init input_size output_size (PList []) = Inl IndexError"
| "Network init input_size output_size (PList (v # vs)) =
     (case as_size input_size of
        Inl e \<Rightarrow> Inl e
      | Inr i \<Rightarrow>
         (case as_sizes (v # vs) of
            Inl e \<Rightarrow> Inl e
          | Inr hs \<Rightarrow>
             (case as_size output_size of
                Inl e \<Rightarrow> Inl e
              | Inr n \<Rightarrow>
                 Inr \<lparr>hidden_layers = hidden_stack init 0 i hs,
                      output_layer = Linear init ''output.'' (last hs) n\<rparr>)))"
| "Network init input_size output_size _ = Inl TypeError"

subsection \<open>The state dict\<close>

text \<open>
  The parameters by name, in the order of \<open>model.state_dict().keys()\<close> as the notebook
  prints it: \<open>hidden_layers.0.weight\<close>, \<open>hidden_layers.0.bias\<close>, ...,
  \<open>output.weight\<close>, \<open>output.bias\<close>.
\<close>

fun hidden_parameters :: "nat \<Rightarrow> 'a linear list \<Rightarrow> (string \<times> 'a tensor) list" where
  "hidden_parameters k [] = []"
| "hidden_parameters k (l # ls) =
     (hidden_prefix k @ ''weight'', weight l) # (hidden_prefix k @ ''bias'', bias l)
       # hidden_parameters (Suc k) ls"

definition named_parameters :: "'a network \<Rightarrow> (string \<times> 'a tensor) list" where
  "named_parameters m =
     hidden_parameters 0 (hidden_layers m)
       @ [(''output.weight'', weight (output_layer m)), (''output.bias'', bias (output_layer m))]"

definition state_dict :: "'a network \<Rightarrow> 'a pyval" where
  "state_dict m = PDict (map (\<lambda>(key, t). (key, PTensor t)) (named_parameters m))"

text \<open>Changing every parameter of a network in place, each by its name.\<close>

definition map_linear :: "(string \<Rightarrow> 'a tensor \<Rightarrow> 'a tensor) \<Rightarrow> string \<Rightarrow> 'a linear \<Rightarrow> 'a linear" where
  "map_linear f prefix l =
     l\<lparr>weight := f (prefix @ ''weight'') (weight l), bias := f (prefix @ ''bias'') (bias l)\<rparr>"

fun map_hidden :: "(string \<Rightarrow> 'a tensor \<Rightarrow> 'a tensor) \<Rightarrow> nat \<Rightarrow> 'a linear list \<Rightarrow> 'a linear list" where
  "map_hidden f k [] = []"
| "map_hidden f k (l # ls) = map_linear f (hidden_prefix k) l # map_hidden f (Suc k) ls"

definition map_parameters :: "(string \<Rightarrow> 'a tensor \<Rightarrow> 'a tensor) \<Rightarrow> 'a network \<Rightarrow> 'a network" where
  "map_parameters f m =
     m\<lparr>hidden_layers := map_hidden f 0 (hidden_layers m),
       output_layer := map_linear f ''output.'' (output_layer m)\<rparr>"

text \<open>
  \<open>model.load_state_dict(state_dict)\<close>, the framework's method with its default
  \<open>strict=True\<close>. For every parameter of the model whose name is a key, an array of
  another shape is reported as a size mismatch and skipped, and an array of the same
  shape is copied in. Names of parameters that are no key are missing keys, keys that
  name no parameter are unexpected keys. When anything was reported, the method raises
  one RuntimeError listing all of it, after the copies that could be made were made (the
  message in the notebook is such a list of size mismatches). An entry under a
  parameter's name that is no tensor has no shape, which raises AttributeError; so does
  a state dict that is no mapping. (The model after an AttributeError is given as it
  was before the call.)
\<close>

definition load_param :: "(string \<times> 'a pyval) list \<Rightarrow> string \<Rightarrow> 'a tensor \<Rightarrow> 'a tensor" where
  "load_param sd key param =
     (case map_of sd key of
        Some (PTensor input_param) \<Rightarrow>
          if shape input_param \<noteq> shape param then param else tensor_copy param input_param
      | _ \<Rightarrow> param)"

definition size_mismatches :: "'a network \<Rightarrow> (string \<times> 'a pyval) list \<Rightarrow> problem list" where
  "size_mismatches m sd =
     concat (map (\<lambda>p. case map_of sd (fst p) of
                         Some (PTensor input_param) \<Rightarrow>
                           if shape input_param \<noteq> shape (snd p)
                           then [SizeMismatch (fst p) (shape input_param) (shape (snd p))] else []
                       | _ \<Rightarrow> [])
                 (named_parameters m))"

definition missing_keys :: "'a network \<Rightarrow> (string \<times> 'a pyval) list \<Rightarrow> string list" where
  "missing_keys m sd = filter (\<lambda>key. map_of sd key = None) (map fst (named_parameters m))"

definition unexpected_keys :: "'a network \<Rightarrow> (string \<times> 'a pyval) list \<Rightarrow> string list" where
  "unexpected_keys m sd = filter (\<lambda>key. key \<notin> set (map fst (named_parameters m))) (map fst sd)"

definition unreadable :: "'a network \<Rightarrow> (string \<times> 'a pyval) list \<Rightarrow> bool" where
  "unreadable m sd =
     list_ex (\<lambda>key. case map_of sd key of None \<Rightarrow> False | Some (PTensor t) \<Rightarrow> False | Some _ \<Rightarrow> True)
       (map fst (named_parameters m))"

definition error_msgs :: "'a network \<Rightarrow> (string \<times> 'a pyval) list \<Rightarrow> problem list" where
  "error_msgs m sd =
     (if missing_keys m sd = [] then [] else [MissingKeys (missing_keys m sd)])
       @ (if unexpected_keys m sd = [] then [] else [UnexpectedKeys (unexpected_keys m sd)])
       @ size_mismatches m sd"

fun load_state_dict :: "'a network \<Rightarrow> 'a pyval \<Rightarrow> 'a network \<times> error option" where
  "load_state_dict m (PDict sd) =
     (if unreadable m sd then (m, Some AttributeError)
      else (map_parameters (load_param sd) m,
            if error_msgs m sd = [] then None else Some (RuntimeError (error_msgs m sd))))"
| "load_state_dict m _ = (m, Some AttributeError)"

subsection \<open>Saving and loading a checkpoint\<close>

text \<open>
  The save cell:
  \<^verbatim>\<open>
  checkpoint = {'input_size': 784,
                'output_size': 10,
                'hidden_layers': [each.out_features for each in model.hidden_layers],
                'state_dict': model.state_dict()}
  torch.save(checkpoint, 'checkpoint.pth')
  \<close>
\<close>

definition checkpoint :: "'a network \<Rightarrow> 'a pyval" where
  "checkpoint model =
     PDict [(''input_size'', PInt 784),
            (''output_size'', PInt 10),
            (''hidden_layers'', PList (map (\<lambda>each. PInt (int (out_features each))) (hidden_layers model))),
            (''state_dict'', state_dict model)]"

definition save_checkpoint :: "'a network \<Rightarrow> 'a files \<Rightarrow> 'a files" where
  "save_checkpoint model fs = torch_save (checkpoint model) ''checkpoint.pth'' fs"

text \<open>
  \<^verbatim>\<open>
  def load_checkpoint(filepath):
      checkpoint = torch.load(filepath)
      model = fc_model.Network(checkpoint['input_size'],
                               checkpoint['output_size'],
                               checkpoint['hidden_layers'])
      model.load_state_dict(checkpoint['state_dict'])
      return model
  \<close>
  Python evaluates the three arguments from left to right, then calls the constructor,
  and only then reads \<open>checkpoint['state_dict']\<close>. Every exception leaves the function
  as it is; the model under construction is lost with it.
\<close>

definition load_checkpoint :: "(string \<Rightarrow> nat \<Rightarrow> 'a) \<Rightarrow> 'a files \<Rightarrow> string \<Rightarrow> error + 'a network" where
  "load_checkpoint init fs filepath =
     (case torch_load fs filepath of
        Inl e \<Rightarrow> Inl e
      | Inr ckpt \<Rightarrow>
     (case getitem ckpt ''input_size'' of
        Inl e \<Rightarrow> Inl e
      | Inr input_size \<Rightarrow>
     (case getitem ckpt ''output_size'' of
        Inl e \<Rightarrow> Inl e
      | Inr output_size \<Rightarrow>
     (case getitem ckpt ''hidden_layers'' of
        Inl e \<Rightarrow> Inl e
      | Inr widths \<Rightarrow>
     (case Network init input_size output_size widths of
        Inl e \<Rightarrow> Inl e
      | Inr model \<Rightarrow>
     (case getitem ckpt ''state_dict'' of
        Inl e \<Rightarrow> Inl e
      | Inr sd \<Rightarrow>
     (case load_state_dict model sd of
        (model', Some e) \<Rightarrow> Inl e
      | (model', None) \<Rightarrow> Inr model')))))))"

subsection \<open>Networks as the framework builds them\<close>

text \<open>
  The shapes of a layer's arrays agree with its two attributes, each hidden layer takes
  the width of the one before, and the output layer that of the last hidden layer.
\<close>

definition linear_ok :: "'a linear \<Rightarrow> bool" where
  "linear_ok l \<longleftrightarrow> shape (weight l) = [out_features l, in_features l] \<and> shape (bias l) = [out_features l]"

fun chained :: "nat \<Rightarrow> 'a linear list \<Rightarrow> bool" where
  "chained i [] = True"
| "chained i (l # ls) = (in_features l = i \<and> linear_ok l \<and> chained (out_features l) ls)"

definition input_features :: "'a network \<Rightarrow> nat" where
  "input_features m = in_features (hd (hidden_layers m))"

definition well_formed :: "'a network \<Rightarrow> bool" where
  "well_formed m \<longleftrightarrow>
     hidden_layers m \<noteq> [] \<and> chained (input_features m) (hidden_layers m)
     \<and> linear_ok (output_layer m)
     \<and> in_features (output_layer m) = out_features (last (hidden_layers m))"

fun is_tensor :: "'a pyval \<Rightarrow> bool" where
  "is_tensor (PTensor t) = True"
| "is_tensor _ = False"

subsection \<open>The notebook, cell by cell\<close>

text \<open>
  Modelled from the spec: the function \<open>fc_model.train\<close>, whose module is not among
  the sources. The spec speaks of the "learned parameter values" that training leaves in
  the model: training overwrites the elements of every parameter, here with the values
  \<open>learned\<close> by parameter name, and changes no shape.
\<close>

definition train :: "(string \<Rightarrow> nat \<Rightarrow> 'a) \<Rightarrow> 'a network \<Rightarrow> 'a network" where
  "train learned model = map_parameters (\<lambda>key t. Tensor (shape t) (learned key)) model"

text \<open>
  The cells of the notebook in the order of the file, from the creation of the network
  to the cell that saves the checkpoint:
  \<^verbatim>\<open>
  model = fc_model.Network(784, 10, [512, 256, 128])
  fc_model.train(model, trainloader, testloader, criterion, optimizer, epochs=2)
  torch.save(model.state_dict(), 'checkpoint.pth')
  state_dict = torch.load('checkpoint.pth')
  model.load_state_dict(state_dict)
  # Try this
  model = fc_model.Network(784, 10, [400, 200, 100])
  # This will throw an error because the tensor sizes are wrong!
  model.load_state_dict(state_dict)
  checkpoint = {...}
  torch.save(checkpoint, 'checkpoint.pth')
  \<close>
  An exception ends the cell that raised it and nothing else: the variables keep their
  values, and the next cell runs on them. The result is the file system after the last
  cell.
\<close>

definition notebook ::
  "(string \<Rightarrow> nat \<Rightarrow> 'a) \<Rightarrow> (string \<Rightarrow> nat \<Rightarrow> 'a) \<Rightarrow> (string \<Rightarrow> nat \<Rightarrow> 'a) \<Rightarrow> 'a files
     \<Rightarrow> error + 'a files" where
  "notebook init learned init' fs =
     (case Network init (PInt 784) (PInt 10) (PList [PInt 512, PInt 256, PInt 128]) of
        Inl e \<Rightarrow> Inl e
      | Inr model \<Rightarrow>
         (let model = train learned model;
              fs = torch_save (state_dict model) ''checkpoint.pth'' fs
          in case torch_load fs ''checkpoint.pth'' of
               Inl e \<Rightarrow> Inl e
             | Inr sd \<Rightarrow>
                (let model = fst (load_state_dict model sd)
                 in case Network init' (PInt 784) (PInt 10) (PList [PInt 400, PInt 200, PInt 100]) of
                      Inl e \<Rightarrow> Inl e
                    | Inr model \<Rightarrow>
                       (let model = fst (load_state_dict model sd)
                        in Inr (save_checkpoint model fs)))))"

subsection \<open>Concrete inputs\<close>

text \<open>
  A framework on integers for running the loop: the loss of a batch is the product of
  the parameter and the batch, its gradient the batch, the update a subtraction. The
  session starts with a stale gradient.
\<close>

definition toy_torch :: "(int, int, int, int) torch" where
  "toy_torch =
     \<lparr>forward_loss = (\<lambda>p b. p * b), loss_gradient = (\<lambda>p b. b),
      sgd_update = (\<lambda>p g. p - g), divide_by = (\<lambda>l n. l div int n)\<rparr>"

definition toy_session :: "(int, int, int) session" where
  "toy_session = \<lparr>params = 10, grad = Some 7, printed = []\<rparr>"

text \<open>Initial and learned elements, an empty disk, and two small networks.\<close>

definition zeros :: "string \<Rightarrow> nat \<Rightarrow> int" where
  "zeros key i = 0"

definition ones :: "string \<Rightarrow> nat \<Rightarrow> int" where
  "ones key i = 1"

definition no_files :: "int files" where
  "no_files = Map.empty"

definition small_model :: "int network" where
  "small_model =
     \<lparr>hidden_layers = [Linear ones ''hidden_layers.0.'' 2 1],
      output_layer = Linear ones ''output.'' 1 1\<rparr>"

definition digits_model :: "int network" where
  "digits_model =
     \<lparr>hidden_layers = [Linear ones ''hidden_layers.0.'' 784 3, Linear ones ''hidden_layers.1.'' 3 2],
      output_layer = Linear ones ''output.'' 2 10\<rparr>"

text \<open>
  The network that the constructor builds from the sizes of a given network: the layers of
  the same widths, with initial elements.
\<close>

definition fresh_like :: "(string \<Rightarrow> nat \<Rightarrow> 'a) \<Rightarrow> 'a network \<Rightarrow> 'a network" where
  "fresh_like init m =
     \<lparr>hidden_layers = hidden_stack init 0 (input_features m) (map out_features (hidden_layers m)),
      output_layer = Linear init ''output.'' (last (map out_features (hidden_layers m))) (out_features (output_layer m))\<rparr>"

text \<open>
  Two records that no save cell wrote, each in a file of its own. The first has the four
  keys, for a network with 2 inputs, one hidden layer of width 1 and 1 output; its state
  dict has arrays of the right shapes but none for \<open>output.bias\<close>. The second has
  no key \<open>state_dict\<close>, and its list of hidden widths is empty.
\<close>

definition partial_state_dict :: "(string \<times> int pyval) list" where
  "partial_state_dict =
     [(''hidden_layers.0.weight'', PTensor (Tensor [1, 2] (ones ''hidden_layers.0.weight''))),
      (''hidden_layers.0.bias'', PTensor (Tensor [1] (ones ''hidden_layers.0.bias''))),
      (''output.weight'', PTensor (Tensor [1, 1] (ones ''output.weight'')))]"

definition partial_files :: "int files" where
  "partial_files =
     no_files(''checkpoint.pth'' \<mapsto>
       PDict [(''input_size'', PInt 2),
              (''output_size'', PInt 1),
              (''hidden_layers'', PList [PInt 1]),
              (''state_dict'', PDict partial_state_dict)])"

definition no_hidden_record :: "int pyval" where
  "no_hidden_record =
     PDict [(''input_size'', PInt 784),
            (''output_size'', PInt 10),
            (''hidden_layers'', PList [])]"

definition no_hidden_files :: "int files" where
  "no_hidden_files = no_files(''checkpoint.pth'' \<mapsto> no_hidden_record)"

text \<open>
  A third record, with the four keys and an array under every parameter name, for the
  same small network: it records 2 inputs, but its first weight has 3 columns.
\<close>

definition mismatched_state_dict :: "(string \<times> int pyval) list" where
  "mismatched_state_dict =
     [(''hidden_layers.0.weight'', PTensor (Tensor [1, 3] (ones ''hidden_layers.0.weight''))),
      (''hidden_layers.0.bias'', PTensor (Tensor [1] (ones ''hidden_layers.0.bias''))),
      (''output.weight'', PTensor (Tensor [1, 1] (ones ''output.weight''))),
      (''output.bias'', PTensor (Tensor [1] (ones ''output.bias'')))]"

definition mismatched_record :: "int pyval" where
  "mismatched_record =
     PDict [(''input_size'', PInt 2),
            (''output_size'', PInt 1),
            (''hidden_layers'', PList [PInt 1]),
            (''state_dict'', PDict mismatched_state_dict)]"

definition mismatched_files :: "int files" where
  "mismatched_files = no_files(''checkpoint.pth'' \<mapsto> mismatched_record)"

section \<open>Properties of the training loop\<close>

lemma params_zero_grad [simp]: "params (zero_grad s) = params s"
  by (simp add: zero_grad_def)

lemma printed_training_pass: "printed (fst (training_pass fw acc b)) = printed (fst acc)"
  by (simp add: training_pass_def Let_def step_def backward_def zero_grad_def split: option.splits)

lemma training_pass_running_loss:
  "training_pass fw (s, a) b = (fst (training_pass fw (s, 0) b), a + forward_loss fw (params s) b)"
  by (simp add: training_pass_def Let_def)

lemma foldl_training_pass:
  "foldl (training_pass fw) (s, a) bs
     = (fst (foldl (training_pass fw) (s, 0) bs), foldl (+) a (batch_losses fw bs s))"
proof (induction bs arbitrary: s a)
  case Nil
  show ?case by simp
next
  case (Cons b bs)
  let ?s = "fst (training_pass fw (s, 0) b)"
  have "foldl (training_pass fw) (s, a) (b # bs)
          = foldl (training_pass fw) (?s, a + forward_loss fw (params s) b) bs"
    using training_pass_running_loss [of fw s a b] by simp
  also have "\<dots> = (fst (foldl (training_pass fw) (?s, 0) bs),
                    foldl (+) (a + forward_loss fw (params s) b) (batch_losses fw bs ?s))"
    by (rule Cons.IH)
  also have "fst (foldl (training_pass fw) (?s, 0) bs)
               = fst (foldl (training_pass fw) (s, 0) (b # bs))"
  proof -
    have "foldl (training_pass fw) (s, 0) (b # bs)
            = foldl (training_pass fw) (?s, 0 + forward_loss fw (params s) b) bs"
      using training_pass_running_loss [of fw s 0 b] by simp
    then show ?thesis
      using Cons.IH [of ?s "0 + forward_loss fw (params s) b"] Cons.IH [of ?s 0] by simp
  qed
  finally show ?case by simp
qed

lemma printed_foldl_training_pass:
  "printed (fst (foldl (training_pass fw) acc bs)) = printed (fst acc)"
  by (induction bs arbitrary: acc) (simp_all add: printed_training_pass)

lemma epoch_nonempty:
  assumes "trainloader \<noteq> []"
  shows "snd (epoch fw trainloader s) = None"
    and "printed (fst (epoch fw trainloader s)) = printed s @ [Training_loss (mean_loss fw trainloader s)]"
proof -
  show "snd (epoch fw trainloader s) = None"
    using assms by (simp add: epoch_def Let_def)
  have "snd (foldl (training_pass fw) (s, 0) trainloader) = foldl (+) 0 (batch_losses fw trainloader s)"
    by (subst foldl_training_pass) simp
  then show "printed (fst (epoch fw trainloader s)) = printed s @ [Training_loss (mean_loss fw trainloader s)]"
    using assms by (simp add: epoch_def Let_def mean_loss_def printed_foldl_training_pass)
qed

text \<open>
  C7, as amended. The loop is a total function of the epoch count, the batch sequence and
  the session. For every epoch count and every batch sequence that is not empty it ends
  without an exception after exactly \<open>epochs\<close> outer iterations, each one pass over
  the batch sequence, and each iteration prints exactly one line: the losses of the
  batches of that epoch, added up in order from 0, divided by the number of batches.
\<close>

theorem train_prints_mean_loss_each_epoch:
  assumes "trainloader \<noteq> []"
  shows "snd (training_loop fw trainloader epochs s) = None
       \<and> printed (fst (training_loop fw trainloader epochs s)) = printed s @ epoch_lines fw trainloader epochs s
       \<and> length (epoch_lines fw trainloader epochs s) = epochs"
proof (induction epochs arbitrary: s)
  case 0
  show ?case by simp
next
  case (Suc n)
  obtain s' where e: "epoch fw trainloader s = (s', None)"
    using epoch_nonempty(1) [OF assms, of fw s] by (cases "epoch fw trainloader s") auto
  have p: "printed s' = printed s @ [Training_loss (mean_loss fw trainloader s)]"
    using epoch_nonempty(2) [OF assms, of fw s] e by simp
  show ?case using Suc.IH [of s'] e p by simp
qed

lemma pass_descends:
  fixes s :: "('p, 'g::{zero,plus}, 'l::{zero,plus}) session"
  assumes z: "\<And>g::'g. 0 + g = g"
  shows "params (fst (training_pass fw (s, a) b)) = descent_pass fw (params s) b"
    and "grad (fst (training_pass fw (s, a) b)) = Some (loss_gradient fw (params s) b)"
  by (simp_all add: training_pass_def Let_def step_def backward_def zero_grad_def descent_pass_def z
      split: option.splits)

lemma passes_descend:
  fixes s :: "('p, 'g::{zero,plus}, 'l::{zero,plus}) session"
  assumes z: "\<And>g::'g. 0 + g = g"
  shows "params (fst (foldl (training_pass fw) (s, a) bs)) = foldl (descent_pass fw) (params s) bs"
proof (induction bs arbitrary: s a)
  case Nil
  show ?case by simp
next
  case (Cons b bs)
  obtain s' a' where t: "training_pass fw (s, a) b = (s', a')"
    by (cases "training_pass fw (s, a) b")
  have "params s' = descent_pass fw (params s) b"
    using pass_descends(1) [OF z, of fw s a b] t by simp
  then show ?case using Cons.IH [of s' a'] t by simp
qed

lemma params_epoch:
  fixes s :: "('p, 'g::{zero,plus}, 'l::{zero,plus}) session"
  assumes z: "\<And>g::'g. 0 + g = g"
  shows "params (fst (epoch fw trainloader s)) = foldl (descent_pass fw) (params s) trainloader"
  using passes_descend [OF z, of fw s 0 trainloader] by (simp add: epoch_def Let_def)

lemma descent_Suc:
  "descent fw trainloader (Suc n) p = descent fw trainloader n (foldl (descent_pass fw) p trainloader)"
proof -
  define F where "F = (\<lambda>q. foldl (descent_pass fw) q trainloader)"
  have "(F ^^ Suc n) p = (F ^^ n) (F p)"
    by (simp only: funpow_Suc_right o_apply)
  then show ?thesis
    by (simp add: descent_def F_def)
qed

lemma descent_no_batches: "descent fw [] n p = p"
  by (induction n) (simp_all add: descent_def)

lemma train_descends:
  fixes s :: "('p, 'g::{zero,plus}, 'l::{zero,plus}) session"
  assumes z: "\<And>g::'g. 0 + g = g"
  shows "params (fst (training_loop fw trainloader epochs s)) = descent fw trainloader epochs (params s)"
proof (cases "trainloader = []")
  case True
  then show ?thesis
    by (cases epochs) (simp_all add: descent_no_batches epoch_def)
next
  case False
  show ?thesis
  proof (induction epochs arbitrary: s)
    case 0
    show ?case by (simp add: descent_def)
  next
    case (Suc n)
    obtain s' where e: "epoch fw trainloader s = (s', None)"
      using epoch_nonempty(1) [OF False, of fw s] by (cases "epoch fw trainloader s") auto
    have "params s' = foldl (descent_pass fw) (params s) trainloader"
      using params_epoch [OF z, of fw trainloader s] e by simp
    then show ?case using Suc.IH [of s'] e
      by (simp add: descent_Suc)
  qed
qed

text \<open>
  C10. Addition of a gradient to a zeroed one gives that gradient. Then, whatever
  gradient is stored when a pass begins, after \<open>zero_grad\<close> and \<open>backward\<close> the
  stored gradient is the gradient of the current batch's loss and nothing else, the step
  of that pass updates the parameters with it, and the parameters after the whole loop
  are those of plain gradient descent, which keeps no gradient from one batch or epoch to
  the next.
\<close>

theorem training_never_accumulates_gradients:
  fixes s :: "('p, 'g::{zero,plus}, 'l::{zero,plus}) session"
  assumes z: "\<And>g::'g. 0 + g = g"
  shows "grad (fst (training_pass fw (s, a) batch)) = Some (loss_gradient fw (params s) batch)
       \<and> params (fst (training_pass fw (s, a) batch)) = sgd_update fw (params s) (loss_gradient fw (params s) batch)
       \<and> params (fst (training_loop fw trainloader epochs s)) = descent fw trainloader epochs (params s)"
  using pass_descends [OF z, of fw s a batch] train_descends [OF z, of fw trainloader epochs s]
  by (simp add: descent_pass_def)


text \<open>Two epochs over the batches 1 and 2: two lines, the means 14 and 9.\<close>

theorem train_prints_mean_loss_each_epoch_witness:
  "[1, 2] \<noteq> ([]::int list)
   \<and> snd (training_loop toy_torch [1, 2] 2 toy_session) = None
   \<and> printed (fst (training_loop toy_torch [1, 2] 2 toy_session)) = [Training_loss 14, Training_loss 9]
   \<and> length (epoch_lines toy_torch [1, 2] 2 toy_session) = 2"
proof -
  have h: "[1, 2] \<noteq> ([]::int list)" by simp
  have e: "epoch_lines toy_torch [1, 2] 2 toy_session = [Training_loss 14, Training_loss 9]"
    by (simp add: numeral_2_eq_2 mean_loss_def epoch_def training_pass_def zero_grad_def backward_def
        step_def toy_torch_def toy_session_def Let_def)
  show ?thesis
    using train_prints_mean_loss_each_epoch [OF h, of toy_torch 2 toy_session] e
    by (simp add: toy_session_def)
qed

text \<open>
  C7 as the spec states it, for every finite batch sequence, fails on the empty one: with
  one epoch asked for, \<open>running_loss/len(trainloader)\<close> divides by zero, the loop
  ends by ZeroDivisionError, and no line is printed.
\<close>

theorem empty_loader_counterexample:
  "snd (training_loop toy_torch [] 1 toy_session) = Some ZeroDivisionError
   \<and> printed (fst (training_loop toy_torch [] 1 toy_session)) = []"
  by (simp add: epoch_def toy_session_def)

text \<open>A session that starts with the stale gradient 7: it leaves no trace.\<close>

theorem training_never_accumulates_gradients_witness:
  "(\<forall>g::int. 0 + g = g)
   \<and> grad (fst (training_pass toy_torch (toy_session, 0) 3)) = Some 3
   \<and> params (fst (training_pass toy_torch (toy_session, 0) 3)) = 7
   \<and> params (fst (training_loop toy_torch [1, 2] 2 toy_session)) = 4"
proof -
  have z: "\<And>g::int. 0 + g = g" by simp
  have d: "descent toy_torch [1, 2] 2 10 = 4"
    by (simp add: descent_def numeral_2_eq_2 descent_pass_def toy_torch_def)
  show ?thesis
    using training_never_accumulates_gradients [OF z, of toy_torch toy_session 0 3 "[1, 2]" 2] d
    by (simp add: toy_session_def toy_torch_def)
qed

section \<open>Properties of checkpoints\<close>

subsection \<open>The names of the layers are told apart\<close>

lemma digit_inject: "a < 10 \<Longrightarrow> b < 10 \<Longrightarrow> digit a = digit b \<Longrightarrow> a = b"
proof -
  assume a: "a < 10" and b: "b < 10" and e: "digit a = digit b"
  from e have "(of_char (char_of (48 + a)) :: nat) = of_char (char_of (48 + b))"
    by (simp add: digit_def)
  with a b show "a = b" by simp
qed

lemma digit_not_dot: "d < 10 \<Longrightarrow> digit d \<noteq> CHR ''.''"
proof
  assume d: "d < 10" and e: "digit d = CHR ''.''"
  from e have "(of_char (char_of (48 + d)) :: nat) = of_char CHR ''.''"
    by (simp add: digit_def)
  with d show False by simp
qed

lemma str_not_empty: "str n \<noteq> []"
  by (subst str.simps) simp

lemma dot_not_in_str: "CHR ''.'' \<notin> set (str n)"
proof (induction n rule: str.induct)
  case (1 n)
  show ?case
  proof (cases "n < 10")
    case True
    then show ?thesis using digit_not_dot [of n] by (subst str.simps) auto
  next
    case False
    have "n mod 10 < 10" by simp
    then have "digit (n mod 10) \<noteq> CHR ''.''" by (rule digit_not_dot)
    then show ?thesis using 1 False by (subst str.simps) auto
  qed
qed

lemma str_inject: "str a = str b \<Longrightarrow> a = b"
proof (induction a arbitrary: b rule: str.induct)
  case (1 a)
  show ?case
  proof (cases "a < 10")
    case a: True
    show ?thesis
    proof (cases "b < 10")
      case True
      then show ?thesis using a 1(2) digit_inject [of a b]
        by (simp add: str.simps [of a] str.simps [of b])
    next
      case False
      then show ?thesis using a 1(2) str_not_empty [of "b div 10"]
        by (simp add: str.simps [of a] str.simps [of b])
    qed
  next
    case a: False
    show ?thesis
    proof (cases "b < 10")
      case True
      then show ?thesis using a 1(2) str_not_empty [of "a div 10"]
        by (simp add: str.simps [of a] str.simps [of b])
    next
      case False
      from a False 1(2) have e: "str (a div 10) = str (b div 10)" and d: "digit (a mod 10) = digit (b mod 10)"
        by (simp_all add: str.simps [of a] str.simps [of b])
      have "a div 10 = b div 10" using 1(1) [OF a e] .
      moreover have "a mod 10 = b mod 10" using d digit_inject [of "a mod 10" "b mod 10"] by simp
      ultimately show ?thesis by (metis div_mult_mod_eq)
    qed
  qed
qed

lemma split_at_separator:
  "x \<notin> set u \<Longrightarrow> x \<notin> set v \<Longrightarrow> u @ x # a = v @ x # b \<Longrightarrow> u = v \<and> a = b"
proof (induction u arbitrary: v)
  case Nil
  then show ?case by (cases v) auto
next
  case (Cons c u)
  then show ?case by (cases v) auto
qed

lemma hidden_prefix_inject:
  "hidden_prefix k @ a = hidden_prefix j @ b \<longleftrightarrow> k = j \<and> a = b"
proof
  assume e: "hidden_prefix k @ a = hidden_prefix j @ b"
  have "str k @ CHR ''.'' # a = str j @ CHR ''.'' # b"
    using e unfolding hidden_prefix_def by simp
  then have "str k = str j \<and> a = b"
    by (rule split_at_separator [OF dot_not_in_str dot_not_in_str])
  then show "k = j \<and> a = b" using str_inject [of k j] by simp
next
  assume "k = j \<and> a = b"
  then show "hidden_prefix k @ a = hidden_prefix j @ b" by simp
qed

lemma hidden_prefix_not_output:
  "hidden_prefix k @ a \<noteq> ''output.weight''" "hidden_prefix k @ a \<noteq> ''output.bias''"
  by (simp_all add: hidden_prefix_def)

subsection \<open>Parameter names\<close>

lemma hidden_names_from:
  "key \<in> fst ` set (hidden_parameters k ls)
     \<Longrightarrow> \<exists>j s. k \<le> j \<and> key = hidden_prefix j @ s"
proof (induction ls arbitrary: k)
  case Nil
  then show ?case by simp
next
  case (Cons l ls)
  from Cons.prems consider "key = hidden_prefix k @ ''weight''" | "key = hidden_prefix k @ ''bias''"
    | "key \<in> fst ` set (hidden_parameters (Suc k) ls)"
    by auto
  then show ?case
  proof cases
    case 3
    then obtain j s where "Suc k \<le> j" "key = hidden_prefix j @ s"
      using Cons.IH by blast
    then show ?thesis by (intro exI [of _ j] exI [of _ s]) simp
  qed blast+
qed

lemma hidden_names_length:
  "length ls = length ls' \<Longrightarrow> map fst (hidden_parameters k ls) = map fst (hidden_parameters k ls')"
  by (induction ls ls' arbitrary: k rule: list_induct2) simp_all

lemma distinct_hidden_names: "distinct (map fst (hidden_parameters k ls))"
proof (induction ls arbitrary: k)
  case Nil
  show ?case by simp
next
  case (Cons l ls)
  have later: "hidden_prefix k @ s \<notin> fst ` set (hidden_parameters (Suc k) ls)" for s
  proof
    assume "hidden_prefix k @ s \<in> fst ` set (hidden_parameters (Suc k) ls)"
    then obtain j s' where "Suc k \<le> j" "hidden_prefix k @ s = hidden_prefix j @ s'"
      using hidden_names_from by blast
    then show False by (simp add: hidden_prefix_inject)
  qed
  have "hidden_prefix k @ ''weight'' \<noteq> hidden_prefix k @ ''bias''" by simp
  then show ?case using Cons.IH [of "Suc k"] later by simp
qed

lemma distinct_names: "distinct (map fst (named_parameters m))"
proof -
  have "s \<notin> fst ` set (hidden_parameters 0 (hidden_layers m))"
    if "s = ''output.weight'' \<or> s = ''output.bias''" for s
  proof
    assume "s \<in> fst ` set (hidden_parameters 0 (hidden_layers m))"
    then obtain j s' where "s = hidden_prefix j @ s'"
      using hidden_names_from by blast
    then show False using that hidden_prefix_not_output [of j s'] by auto
  qed
  then show ?thesis
    by (simp add: named_parameters_def distinct_hidden_names)
qed

lemma hidden_parameters_map:
  "hidden_parameters k (map_hidden f k ls) = map (\<lambda>(key, t). (key, f key t)) (hidden_parameters k ls)"
  by (induction ls arbitrary: k) (simp_all add: map_linear_def)

lemma named_parameters_map:
  "named_parameters (map_parameters f m) = map (\<lambda>(key, t). (key, f key t)) (named_parameters m)"
  by (simp add: named_parameters_def map_parameters_def hidden_parameters_map map_linear_def)

subsection \<open>Reading a state dict\<close>

lemma state_dict_lookup:
  assumes "p \<in> set (named_parameters m)"
  shows "map_of (map (\<lambda>(key, t). (key, PTensor t)) (named_parameters m)) (fst p) = Some (PTensor (snd p))"
proof -
  have "map_of (named_parameters m) (fst p) = Some (snd p)"
    using assms distinct_names [of m] by simp
  then show ?thesis
    by (simp add: map_of_map)
qed

lemma state_dict_keys:
  "map fst (map (\<lambda>(key, t). (key, PTensor t)) ps) = map fst ps"
  by (induction ps) auto

subsection \<open>Loading what was saved\<close>

lemma as_sizes_widths:
  "as_sizes (map (\<lambda>each. PInt (int (out_features each))) ls) = Inr (map out_features ls)"
  by (induction ls) simp_all

lemma load_param_same_shape:
  "map_of sd key = Some (PTensor t) \<Longrightarrow> shape t = shape param \<Longrightarrow> load_param sd key param = t"
  by (cases t) (simp add: load_param_def tensor_copy_def)

lemma load_linear_roundtrip:
  assumes "linear_ok l"
    and "map_of sd (prefix @ ''weight'') = Some (PTensor (weight l))"
    and "map_of sd (prefix @ ''bias'') = Some (PTensor (bias l))"
  shows "map_linear (load_param sd) prefix (Linear init prefix (in_features l) (out_features l)) = l"
proof -
  have w: "load_param sd (prefix @ ''weight'') (Tensor [out_features l, in_features l] (init (prefix @ ''weight''))) = weight l"
    using assms by (intro load_param_same_shape) (simp_all add: linear_ok_def)
  have b: "load_param sd (prefix @ ''bias'') (Tensor [out_features l] (init (prefix @ ''bias''))) = bias l"
    using assms by (intro load_param_same_shape) (simp_all add: linear_ok_def)
  show ?thesis
    by (simp add: map_linear_def Linear_def w b)
qed

lemma load_hidden_roundtrip:
  assumes "chained i ls"
    and "\<forall>p \<in> set (hidden_parameters k ls). map_of sd (fst p) = Some (PTensor (snd p))"
  shows "map_hidden (load_param sd) k (hidden_stack init k i (map out_features ls)) = ls"
  using assms
proof (induction ls arbitrary: k i)
  case Nil
  show ?case by simp
next
  case (Cons l ls)
  from Cons.prems(1) have i: "in_features l = i" and ok: "linear_ok l" and c: "chained (out_features l) ls"
    by simp_all
  have "map_linear (load_param sd) (hidden_prefix k) (Linear init (hidden_prefix k) (in_features l) (out_features l)) = l"
    using ok Cons.prems(2) by (intro load_linear_roundtrip) simp_all
  moreover have "map_hidden (load_param sd) (Suc k) (hidden_stack init (Suc k) (out_features l) (map out_features ls)) = ls"
    using c Cons.prems(2) by (intro Cons.IH) simp_all
  ultimately show ?case using i by simp
qed

lemma Network_sizes:
  "as_sizes (v # vs) = Inr hs
     \<Longrightarrow> Network init (PInt (int i)) (PInt (int n)) (PList (v # vs))
         = Inr \<lparr>hidden_layers = hidden_stack init 0 i hs, output_layer = Linear init ''output.'' (last hs) n\<rparr>"
  by (simp del: as_sizes.simps)

lemma Network_recorded:
  assumes "hidden_layers m \<noteq> []"
  shows "Network init (PInt (int (input_features m))) (PInt (int (out_features (output_layer m))))
           (PList (map (\<lambda>each. PInt (int (out_features each))) (hidden_layers m)))
         = Inr (fresh_like init m)"
proof -
  obtain l ls where ls: "hidden_layers m = l # ls"
    using assms by (cases "hidden_layers m") auto
  have "as_sizes (PInt (int (out_features l)) # map (\<lambda>each. PInt (int (out_features each))) ls)
          = Inr (map out_features (l # ls))"
    using as_sizes_widths [of "l # ls"] by simp
  then show ?thesis
    unfolding ls fresh_like_def list.map by (rule Network_sizes)
qed

lemma map_parameters_roundtrip:
  assumes "well_formed m"
  shows "map_parameters (load_param (map (\<lambda>(key, t). (key, PTensor t)) (named_parameters m))) (fresh_like init m) = m"
proof -
  let ?sd = "map (\<lambda>(key, t). (key, PTensor t)) (named_parameters m)"
  have look: "\<forall>p \<in> set (named_parameters m). map_of ?sd (fst p) = Some (PTensor (snd p))"
    using state_dict_lookup by blast
  have h: "map_hidden (load_param ?sd) 0 (hidden_stack init 0 (input_features m) (map out_features (hidden_layers m)))
             = hidden_layers m"
    using assms look by (intro load_hidden_roundtrip) (simp_all add: well_formed_def named_parameters_def)
  have "map_linear (load_param ?sd) ''output.'' (Linear init ''output.'' (in_features (output_layer m)) (out_features (output_layer m)))
          = output_layer m"
    using assms look by (intro load_linear_roundtrip) (simp_all add: well_formed_def named_parameters_def)
  moreover have "last (map out_features (hidden_layers m)) = in_features (output_layer m)"
    using assms by (simp add: well_formed_def last_map)
  ultimately show ?thesis
    by (simp add: map_parameters_def fresh_like_def h)
qed

lemma names_fresh_like:
  "map fst (named_parameters (fresh_like init m)) = map fst (named_parameters m)"
proof -
  have "length (hidden_stack init k i ws) = length ws" for k i ws
    by (induction ws arbitrary: k i) simp_all
  then have "length (hidden_layers (fresh_like init m)) = length (hidden_layers m)"
    by (simp add: fresh_like_def)
  then show ?thesis
    using hidden_names_length [of "hidden_layers (fresh_like init m)" "hidden_layers m" 0]
    by (simp add: named_parameters_def)
qed

lemma loaded_entry_shape:
  assumes "map_of sd key = Some (PTensor u)" and "u = load_param sd key t"
  shows "shape u = shape t"
proof (rule ccontr)
  assume n: "shape u \<noteq> shape t"
  have "load_param sd key t = (if shape u \<noteq> shape t then t else tensor_copy t u)"
    using assms(1) by (simp add: load_param_def)
  then have "u = t" using n assms(2) by simp
  with n show False by simp
qed

lemma load_state_dict_roundtrip:
  assumes "well_formed m"
  shows "load_state_dict (fresh_like init m) (state_dict m) = (m, None)"
proof -
  let ?sd = "map (\<lambda>(key, t). (key, PTensor t)) (named_parameters m)"
  let ?fresh = "fresh_like init m"
  have rt: "map_parameters (load_param ?sd) ?fresh = m"
    using assms by (rule map_parameters_roundtrip)
  have entry: "map_of ?sd (fst p) = Some (PTensor (load_param ?sd (fst p) (snd p)))
             \<and> shape (load_param ?sd (fst p) (snd p)) = shape (snd p)"
    if "p \<in> set (named_parameters ?fresh)" for p
  proof -
    have "(fst p, load_param ?sd (fst p) (snd p)) \<in> set (named_parameters (map_parameters (load_param ?sd) ?fresh))"
      using that by (force simp: named_parameters_map)
    then have "map_of ?sd (fst p) = Some (PTensor (load_param ?sd (fst p) (snd p)))"
      using state_dict_lookup [of "(fst p, load_param ?sd (fst p) (snd p))" m] rt by simp
    then show ?thesis using loaded_entry_shape [OF _ refl] by blast
  qed
  have "\<not> unreadable ?fresh ?sd"
    using entry by (auto simp: unreadable_def list_ex_iff)
  moreover have "missing_keys ?fresh ?sd = []"
    using entry by (auto simp: missing_keys_def filter_empty_conv)
  moreover have "unexpected_keys ?fresh ?sd = []"
    by (force simp: unexpected_keys_def filter_empty_conv names_fresh_like)
  moreover have "size_mismatches ?fresh ?sd = []"
    using entry by (auto simp: size_mismatches_def)
  ultimately show ?thesis
    by (simp add: state_dict_def error_msgs_def rt)
qed

subsection \<open>What a successful construction and a successful load say\<close>

lemma as_size_Inr: "as_size v = Inr n \<Longrightarrow> v = PInt (int n)"
  by (cases v) (auto split: if_splits)

lemma as_sizes_Inr: "as_sizes vs = Inr ns \<Longrightarrow> vs = map (\<lambda>n. PInt (int n)) ns"
proof (induction vs arbitrary: ns)
  case Nil
  then show ?case by simp
next
  case (Cons v vs)
  from Cons.prems obtain n ns' where n: "as_size v = Inr n" and ns': "as_sizes vs = Inr ns'"
    and ns: "ns = n # ns'"
    by (auto split: sum.splits)
  show ?case
    using as_size_Inr [OF n] Cons.IH [OF ns'] ns by simp
qed

lemma out_features_hidden_stack: "map out_features (hidden_stack init k i hs) = hs"
  by (induction hs arbitrary: k i) (simp_all add: Linear_def)

lemma in_features_hidden_stack: "hs \<noteq> [] \<Longrightarrow> in_features (hd (hidden_stack init k i hs)) = i"
  by (cases hs) (simp_all add: Linear_def)

lemma out_features_map_hidden: "map out_features (map_hidden f k ls) = map out_features ls"
  by (induction ls arbitrary: k) (simp_all add: map_linear_def)

lemma in_features_map_hidden: "map in_features (map_hidden f k ls) = map in_features ls"
  by (induction ls arbitrary: k) (simp_all add: map_linear_def)

lemma Network_Inr:
  assumes "Network init vi vo vh = Inr fresh"
  shows "\<exists>i n hs. vi = PInt (int i) \<and> vo = PInt (int n) \<and> hs \<noteq> []
           \<and> vh = PList (map (\<lambda>h. PInt (int h)) hs)
           \<and> fresh = \<lparr>hidden_layers = hidden_stack init 0 i hs,
                       output_layer = Linear init ''output.'' (last hs) n\<rparr>"
proof (cases vh)
  case (PList ws)
  show ?thesis
  proof (cases ws)
    case Nil
    then show ?thesis using assms PList by simp
  next
    case (Cons w ws')
    have n: "(case as_size vi of
                Inl e \<Rightarrow> Inl e
              | Inr i \<Rightarrow>
                 (case as_sizes (w # ws') of
                    Inl e \<Rightarrow> Inl e
                  | Inr hs \<Rightarrow>
                     (case as_size vo of
                        Inl e \<Rightarrow> Inl e
                      | Inr n \<Rightarrow>
                         Inr \<lparr>hidden_layers = hidden_stack init 0 i hs,
                              output_layer = Linear init ''output.'' (last hs) n\<rparr>))) = Inr fresh"
      using assms unfolding PList Cons Network.simps .
    obtain i where i: "as_size vi = Inr i"
      using n by (cases "as_size vi") (simp_all only: sum.case sum.distinct)
    obtain hs where hs: "as_sizes (w # ws') = Inr hs"
      using n unfolding i sum.case by (cases "as_sizes (w # ws')") (simp_all only: sum.case sum.distinct)
    obtain k where k: "as_size vo = Inr k"
      using n unfolding i hs sum.case by (cases "as_size vo") (simp_all only: sum.case sum.distinct)
    have fresh: "fresh = \<lparr>hidden_layers = hidden_stack init 0 i hs,
                          output_layer = Linear init ''output.'' (last hs) k\<rparr>"
      using n unfolding i hs k sum.case by (simp only: sum.inject)
    have ws: "w # ws' = map (\<lambda>h. PInt (int h)) hs"
      using hs by (rule as_sizes_Inr)
    then have ne: "hs \<noteq> []" by auto
    show ?thesis
    proof (intro exI conjI)
      show "vi = PInt (int i)" using i by (rule as_size_Inr)
      show "vo = PInt (int k)" using k by (rule as_size_Inr)
      show "hs \<noteq> []" by (rule ne)
      show "vh = PList (map (\<lambda>h. PInt (int h)) hs)" unfolding PList Cons ws ..
      show "fresh = \<lparr>hidden_layers = hidden_stack init 0 i hs,
                     output_layer = Linear init ''output.'' (last hs) k\<rparr>" by (rule fresh)
    qed
  qed
qed (use assms in simp_all)

lemma Network_shape:
  assumes "Network init vi vo vh = Inr fresh"
  shows "vi = PInt (int (input_features (map_parameters f fresh)))"
    and "vo = PInt (int (out_features (output_layer (map_parameters f fresh))))"
    and "vh = PList (map (\<lambda>each. PInt (int (out_features each))) (hidden_layers (map_parameters f fresh)))"
proof -
  obtain i n hs where vi: "vi = PInt (int i)" and vo: "vo = PInt (int n)" and hs: "hs \<noteq> []"
    and vh: "vh = PList (map (\<lambda>h. PInt (int h)) hs)"
    and fresh: "fresh = \<lparr>hidden_layers = hidden_stack init 0 i hs,
                          output_layer = Linear init ''output.'' (last hs) n\<rparr>"
    using Network_Inr [OF assms] by blast
  have ne: "hidden_stack init 0 i hs \<noteq> []"
    using hs by (cases hs) simp_all
  have "map in_features (map_hidden f 0 (hidden_stack init 0 i hs)) = map in_features (hidden_stack init 0 i hs)"
    by (rule in_features_map_hidden)
  then have "in_features (hd (map_hidden f 0 (hidden_stack init 0 i hs))) = in_features (hd (hidden_stack init 0 i hs))"
    using ne by (cases "hidden_stack init 0 i hs"; cases "map_hidden f 0 (hidden_stack init 0 i hs)") simp_all
  then show "vi = PInt (int (input_features (map_parameters f fresh)))"
    using hs by (simp add: vi fresh input_features_def map_parameters_def in_features_hidden_stack)
  show "vo = PInt (int (out_features (output_layer (map_parameters f fresh))))"
    by (simp add: vo fresh map_parameters_def map_linear_def Linear_def)
  have o: "map out_features (hidden_layers (map_parameters f fresh)) = hs"
    by (simp add: fresh map_parameters_def out_features_map_hidden out_features_hidden_stack)
  have "map (\<lambda>each. PInt (int (out_features each))) (hidden_layers (map_parameters f fresh))
          = map (\<lambda>h. PInt (int h)) (map out_features (hidden_layers (map_parameters f fresh)))"
    by (simp add: comp_def)
  then have "map (\<lambda>each. PInt (int (out_features each))) (hidden_layers (map_parameters f fresh))
          = map (\<lambda>h. PInt (int h)) hs"
    unfolding o .
  then show "vh = PList (map (\<lambda>each. PInt (int (out_features each))) (hidden_layers (map_parameters f fresh)))"
    unfolding vh by (rule arg_cong [of _ _ PList, OF sym])
qed

lemma load_state_dict_None:
  assumes "load_state_dict fresh vs = (model, None)"
  shows "\<exists>sd. vs = PDict sd \<and> \<not> unreadable fresh sd \<and> error_msgs fresh sd = []
           \<and> model = map_parameters (load_param sd) fresh"
  using assms by (cases vs) (auto split: if_splits)

lemma error_msgs_empty:
  "error_msgs m sd = [] \<longleftrightarrow> missing_keys m sd = [] \<and> unexpected_keys m sd = [] \<and> size_mismatches m sd = []"
  by (simp add: error_msgs_def)

lemma missing_keys_empty:
  "missing_keys m sd = [] \<longleftrightarrow> set (map fst (named_parameters m)) \<subseteq> set (map fst sd)"
  by (auto simp: missing_keys_def filter_empty_conv map_of_eq_None_iff)

lemma unexpected_keys_empty:
  "unexpected_keys m sd = [] \<longleftrightarrow> set (map fst sd) \<subseteq> set (map fst (named_parameters m))"
  by (auto simp: unexpected_keys_def filter_empty_conv)

lemma size_mismatches_empty:
  "size_mismatches m sd = []
     \<longleftrightarrow> (\<forall>p \<in> set (named_parameters m). \<forall>t. map_of sd (fst p) = Some (PTensor t) \<longrightarrow> shape t = shape (snd p))"
  by (auto simp: size_mismatches_def split: option.splits pyval.splits)

lemma parameter_lookup:
  "map_of (named_parameters m) key = Some t \<longleftrightarrow> (key, t) \<in> set (named_parameters m)"
  using distinct_names [of m] by simp

lemma readable_entry:
  assumes "\<not> unreadable m sd" and "key \<in> set (map fst (named_parameters m))" and "map_of sd key = Some v"
  shows "\<exists>t. v = PTensor t"
  using assms by (cases v) (auto simp: unreadable_def list_ex_iff)

lemma loaded_entries:
  assumes r: "\<not> unreadable fresh sd" and e: "error_msgs fresh sd = []" and v: "map_of sd key = Some v"
  shows "\<exists>t. v = PTensor t \<and> map_of (named_parameters (map_parameters (load_param sd) fresh)) key = Some t"
proof -
  have "key \<in> set (map fst sd)"
    using v by (metis map_of_eq_None_iff option.distinct(1) set_map)
  then have "key \<in> set (map fst (named_parameters fresh))"
    using e by (auto simp: error_msgs_empty unexpected_keys_empty)
  then obtain t0 where t0: "(key, t0) \<in> set (named_parameters fresh)"
    by auto
  obtain t where t: "v = PTensor t"
    using readable_entry [OF r \<open>key \<in> set (map fst (named_parameters fresh))\<close> v] by blast
  have "shape t = shape t0"
    using e t0 v t by (auto simp: error_msgs_empty size_mismatches_empty)
  then have "load_param sd key t0 = t"
    using v t by (intro load_param_same_shape) simp_all
  then have "(key, t) \<in> set (named_parameters (map_parameters (load_param sd) fresh))"
    using t0 by (force simp: named_parameters_map)
  then show ?thesis
    using t by (simp add: parameter_lookup)
qed

subsection \<open>Save, then load\<close>

lemma hidden_prefix_0: "hidden_prefix 0 = ''hidden_layers.0.''"
  by code_simp

lemma hidden_prefix_1: "hidden_prefix (Suc 0) = ''hidden_layers.1.''"
  by code_simp

lemma hidden_prefix_2: "hidden_prefix (Suc (Suc 0)) = ''hidden_layers.2.''"
  by code_simp

text \<open>
  C1, as amended. For every network as the framework builds them that has 784 inputs and
  10 outputs, whatever its hidden layers and the values of its parameters: saving the
  checkpoint built from it and calling \<open>load_checkpoint\<close> on the saved file returns
  a network with the same layers and the same parameter values, whatever the initial
  values of the freshly constructed network and whatever else is on the disk.
\<close>

theorem save_then_load_restores_model:
  assumes "well_formed m" and "input_features m = 784" and "out_features (output_layer m) = 10"
  shows "load_checkpoint init (save_checkpoint m fs) ''checkpoint.pth'' = Inr m"
proof -
  have "hidden_layers m \<noteq> []"
    using assms(1) by (simp add: well_formed_def)
  then have n: "Network init (PInt 784) (PInt 10)
                  (PList (map (\<lambda>each. PInt (int (out_features each))) (hidden_layers m)))
                = Inr (fresh_like init m)"
    using Network_recorded [of m init] assms(2,3) by simp
  have l: "load_state_dict (fresh_like init m) (state_dict m) = (m, None)"
    using assms(1) by (rule load_state_dict_roundtrip)
  show ?thesis
    by (simp add: load_checkpoint_def save_checkpoint_def torch_save_def torch_load_def
        checkpoint_def n l)
qed

text \<open>A network 784, 3, 2, 10 with all parameters 1, loaded into a fresh one with all 0.\<close>

theorem save_then_load_restores_model_witness:
  "well_formed digits_model \<and> input_features digits_model = 784
   \<and> out_features (output_layer digits_model) = 10
   \<and> load_checkpoint zeros (save_checkpoint digits_model no_files) ''checkpoint.pth'' = Inr digits_model"
proof -
  have w: "well_formed digits_model"
    by (simp add: well_formed_def digits_model_def input_features_def linear_ok_def Linear_def)
  have i: "input_features digits_model = 784"
    by (simp add: digits_model_def input_features_def Linear_def)
  have n: "out_features (output_layer digits_model) = 10"
    by (simp add: digits_model_def Linear_def)
  show ?thesis
    using save_then_load_restores_model [OF w i n, of zeros no_files] w i n by simp
qed

text \<open>
  C1 as the spec states it, for every model, fails: the save cell writes the constants
  784 and 10, not the model's own sizes. For the network with 2 inputs, one hidden
  layer of width 1 and 1 output, the loader builds a network 784, 1, 10, and
  \<open>load_state_dict\<close> raises on the sizes.
\<close>

theorem other_sizes_counterexample:
  "well_formed small_model
   \<and> load_checkpoint zeros (save_checkpoint small_model no_files) ''checkpoint.pth''
       = Inl (RuntimeError [SizeMismatch ''hidden_layers.0.weight'' [1, 2] [1, 784],
                            SizeMismatch ''output.weight'' [1, 1] [10, 1],
                            SizeMismatch ''output.bias'' [1] [10]])"
  by (simp add: well_formed_def small_model_def input_features_def linear_ok_def Linear_def
      load_checkpoint_def save_checkpoint_def torch_save_def torch_load_def checkpoint_def
      state_dict_def named_parameters_def hidden_prefix_0 no_files_def
      unreadable_def error_msgs_def missing_keys_def unexpected_keys_def size_mismatches_def)

subsection \<open>Loading a record with the four keys\<close>

lemma load_checkpoint_record:
  assumes "torch_load fs filepath = Inr (PDict ckpt)"
    and "map_of ckpt ''input_size'' = Some vi"
    and "map_of ckpt ''output_size'' = Some vo"
    and "map_of ckpt ''hidden_layers'' = Some vh"
    and "map_of ckpt ''state_dict'' = Some vs"
  shows "load_checkpoint init fs filepath =
           (case Network init vi vo vh of
              Inl e \<Rightarrow> Inl e
            | Inr fresh \<Rightarrow>
               (case load_state_dict fresh vs of
                  (model, Some e) \<Rightarrow> Inl e
                | (model, None) \<Rightarrow> Inr model))"
  using assms by (simp add: load_checkpoint_def split: sum.splits)

lemma arrays_readable:
  assumes "list_all is_tensor (map snd sd)"
  shows "\<not> unreadable m sd"
proof -
  have "\<exists>t. v = PTensor t" if "map_of sd key = Some v" for key v
  proof -
    have "v \<in> set (map snd sd)"
      using that by (force dest: map_of_SomeD)
    then have "is_tensor v"
      using assms by (auto simp: list_all_iff)
    then show ?thesis by (cases v) simp_all
  qed
  then show ?thesis
    by (fastforce simp: unreadable_def list_ex_iff split: option.splits pyval.splits)
qed

lemma state_dict_arrays:
  "list_all is_tensor (map snd (map (\<lambda>(key, t). (key, PTensor t)) ps))"
  by (induction ps) auto

lemma error_msgs_nonempty:
  "error_msgs fresh sd \<noteq> [] \<longleftrightarrow>
     set (map fst sd) \<noteq> set (map fst (named_parameters fresh))
   \<or> (\<exists>key t t'. map_of sd key = Some (PTensor t)
         \<and> map_of (named_parameters fresh) key = Some t' \<and> shape t \<noteq> shape t')"
proof -
  have "size_mismatches fresh sd \<noteq> [] \<longleftrightarrow>
          (\<exists>key t t'. map_of sd key = Some (PTensor t)
             \<and> map_of (named_parameters fresh) key = Some t' \<and> shape t \<noteq> shape t')"
    unfolding size_mismatches_empty parameter_lookup by force
  moreover have "missing_keys fresh sd \<noteq> [] \<or> unexpected_keys fresh sd \<noteq> [] \<longleftrightarrow>
          set (map fst sd) \<noteq> set (map fst (named_parameters fresh))"
    unfolding missing_keys_empty unexpected_keys_empty by blast
  ultimately show ?thesis
    unfolding error_msgs_empty by blast
qed

lemma load_state_dict_succeeds:
  "(\<exists>model. load_state_dict fresh (PDict sd) = (model, None)) \<longleftrightarrow>
     set (map fst sd) = set (map fst (named_parameters fresh))
   \<and> (\<forall>key v. map_of sd key = Some v \<longrightarrow>
         (\<exists>t t'. v = PTensor t \<and> map_of (named_parameters fresh) key = Some t' \<and> shape t = shape t'))"
proof
  assume "\<exists>model. load_state_dict fresh (PDict sd) = (model, None)"
  then have r: "\<not> unreadable fresh sd" and e: "error_msgs fresh sd = []"
    by (auto split: if_splits)
  from e have names: "set (map fst sd) = set (map fst (named_parameters fresh))"
    and shapes: "\<And>key t t'. map_of sd key = Some (PTensor t) \<Longrightarrow>
                   map_of (named_parameters fresh) key = Some t' \<Longrightarrow> shape t = shape t'"
    using error_msgs_nonempty [of fresh sd] by blast+
  have "\<exists>t t'. v = PTensor t \<and> map_of (named_parameters fresh) key = Some t' \<and> shape t = shape t'"
    if v: "map_of sd key = Some v" for key v
  proof -
    have "key \<in> set (map fst sd)"
      using v by (metis map_of_eq_None_iff option.distinct(1) set_map)
    then have k: "key \<in> set (map fst (named_parameters fresh))"
      using names by simp
    then obtain t' where t': "map_of (named_parameters fresh) key = Some t'"
      unfolding parameter_lookup by auto
    obtain t where t: "v = PTensor t"
      using readable_entry [OF r k v] by blast
    show ?thesis
      using t t' shapes [OF v [unfolded t] t'] by blast
  qed
  with names show "set (map fst sd) = set (map fst (named_parameters fresh))
    \<and> (\<forall>key v. map_of sd key = Some v \<longrightarrow>
         (\<exists>t t'. v = PTensor t \<and> map_of (named_parameters fresh) key = Some t' \<and> shape t = shape t'))"
    by blast
next
  assume a: "set (map fst sd) = set (map fst (named_parameters fresh))
    \<and> (\<forall>key v. map_of sd key = Some v \<longrightarrow>
         (\<exists>t t'. v = PTensor t \<and> map_of (named_parameters fresh) key = Some t' \<and> shape t = shape t'))"
  have r: "\<not> unreadable fresh sd"
  proof
    assume "unreadable fresh sd"
    then obtain key v where "map_of sd key = Some v" and "\<nexists>t. v = PTensor t"
      by (auto simp: unreadable_def list_ex_iff split: option.splits pyval.splits)
    then show False using a by blast
  qed
  have "error_msgs fresh sd = []"
  proof (rule ccontr)
    assume "error_msgs fresh sd \<noteq> []"
    then obtain key t t' where "map_of sd key = Some (PTensor t)"
      and "map_of (named_parameters fresh) key = Some t'" and "shape t \<noteq> shape t'"
      using a error_msgs_nonempty [of fresh sd] by blast
    then show False using a by fastforce
  qed
  then show "\<exists>model. load_state_dict fresh (PDict sd) = (model, None)"
    using r by simp
qed

text \<open>
  C2, as amended. For every file that holds a record with the keys \<open>input_size\<close>,
  \<open>output_size\<close>, \<open>hidden_layers\<close> and \<open>state_dict\<close>, \<open>load_checkpoint\<close>
  is these steps in this order: the constructor on the three recorded sizes, then
  \<open>load_state_dict\<close> of the recorded state dict on the network just constructed,
  then the return of that network; an exception of either step ends the call and no
  model is returned. A model is returned exactly when the constructor accepts the
  recorded sizes and the recorded state dict is a mapping whose names are the names of
  the parameters of the network just constructed, each with an array of the shape of
  that parameter. The returned model then has the recorded \<open>input_size\<close> as its
  input dimension, the recorded \<open>hidden_layers\<close> in order as the widths of its
  hidden layers and the recorded \<open>output_size\<close> as its output dimension, and every
  array of the recorded state dict is the parameter of the same name of the returned
  model.
\<close>

theorem load_checkpoint_rebuilds_recorded_model:
  assumes "torch_load fs filepath = Inr (PDict ckpt)"
    and "map_of ckpt ''input_size'' = Some vi"
    and "map_of ckpt ''output_size'' = Some vo"
    and "map_of ckpt ''hidden_layers'' = Some vh"
    and "map_of ckpt ''state_dict'' = Some vs"
  shows "load_checkpoint init fs filepath =
           (case Network init vi vo vh of
              Inl e \<Rightarrow> Inl e
            | Inr fresh \<Rightarrow>
               (case load_state_dict fresh vs of
                  (model, Some e) \<Rightarrow> Inl e
                | (model, None) \<Rightarrow> Inr model))
       \<and> ((\<exists>model. load_checkpoint init fs filepath = Inr model) \<longleftrightarrow>
            (\<exists>fresh sd. Network init vi vo vh = Inr fresh \<and> vs = PDict sd
               \<and> set (map fst sd) = set (map fst (named_parameters fresh))
               \<and> (\<forall>key v. map_of sd key = Some v \<longrightarrow>
                     (\<exists>t t'. v = PTensor t \<and> map_of (named_parameters fresh) key = Some t'
                        \<and> shape t = shape t'))))
       \<and> (\<forall>model. load_checkpoint init fs filepath = Inr model \<longrightarrow>
              vi = PInt (int (input_features model))
            \<and> vh = PList (map (\<lambda>each. PInt (int (out_features each))) (hidden_layers model))
            \<and> vo = PInt (int (out_features (output_layer model)))
            \<and> (\<exists>sd. vs = PDict sd
                 \<and> (\<forall>key v. map_of sd key = Some v \<longrightarrow>
                       (\<exists>t. v = PTensor t \<and> map_of (named_parameters model) key = Some t))))"
proof -
  have steps: "load_checkpoint init fs filepath =
           (case Network init vi vo vh of
              Inl e \<Rightarrow> Inl e
            | Inr fresh \<Rightarrow>
               (case load_state_dict fresh vs of
                  (model, Some e) \<Rightarrow> Inl e
                | (model, None) \<Rightarrow> Inr model))"
    using assms by (rule load_checkpoint_record)
  have returned: "\<exists>fresh. Network init vi vo vh = Inr fresh \<and> load_state_dict fresh vs = (model, None)"
    if ok: "load_checkpoint init fs filepath = Inr model" for model
  proof -
    obtain fresh where fresh: "Network init vi vo vh = Inr fresh"
      using ok unfolding steps by (cases "Network init vi vo vh") simp_all
    have "load_state_dict fresh vs = (model, None)"
      using ok unfolding steps fresh
      by (cases "load_state_dict fresh vs") (auto split: option.splits)
    with fresh show ?thesis by blast
  qed
  have returns: "load_checkpoint init fs filepath = Inr model"
    if "Network init vi vo vh = Inr fresh" and "load_state_dict fresh vs = (model, None)" for fresh model
    unfolding steps using that by simp
  have exactly: "(\<exists>model. load_checkpoint init fs filepath = Inr model) \<longleftrightarrow>
            (\<exists>fresh sd. Network init vi vo vh = Inr fresh \<and> vs = PDict sd
               \<and> set (map fst sd) = set (map fst (named_parameters fresh))
               \<and> (\<forall>key v. map_of sd key = Some v \<longrightarrow>
                     (\<exists>t t'. v = PTensor t \<and> map_of (named_parameters fresh) key = Some t'
                        \<and> shape t = shape t')))"
  proof
    assume "\<exists>model. load_checkpoint init fs filepath = Inr model"
    then obtain model fresh where fresh: "Network init vi vo vh = Inr fresh"
      and l: "load_state_dict fresh vs = (model, None)"
      using returned by blast
    obtain sd where vs: "vs = PDict sd"
      using load_state_dict_None [OF l] by blast
    have "\<exists>model. load_state_dict fresh (PDict sd) = (model, None)"
      using l vs by blast
    then show "\<exists>fresh sd. Network init vi vo vh = Inr fresh \<and> vs = PDict sd
               \<and> set (map fst sd) = set (map fst (named_parameters fresh))
               \<and> (\<forall>key v. map_of sd key = Some v \<longrightarrow>
                     (\<exists>t t'. v = PTensor t \<and> map_of (named_parameters fresh) key = Some t'
                        \<and> shape t = shape t'))"
      unfolding load_state_dict_succeeds using fresh vs by blast
  next
    assume "\<exists>fresh sd. Network init vi vo vh = Inr fresh \<and> vs = PDict sd
               \<and> set (map fst sd) = set (map fst (named_parameters fresh))
               \<and> (\<forall>key v. map_of sd key = Some v \<longrightarrow>
                     (\<exists>t t'. v = PTensor t \<and> map_of (named_parameters fresh) key = Some t'
                        \<and> shape t = shape t'))"
    then obtain fresh sd where fresh: "Network init vi vo vh = Inr fresh" and vs: "vs = PDict sd"
      and c: "set (map fst sd) = set (map fst (named_parameters fresh))
               \<and> (\<forall>key v. map_of sd key = Some v \<longrightarrow>
                     (\<exists>t t'. v = PTensor t \<and> map_of (named_parameters fresh) key = Some t'
                        \<and> shape t = shape t'))"
      by blast
    obtain model where "load_state_dict fresh (PDict sd) = (model, None)"
      using c unfolding load_state_dict_succeeds [symmetric] by blast
    then show "\<exists>model. load_checkpoint init fs filepath = Inr model"
      using returns [OF fresh] vs by blast
  qed
  have shape: "vi = PInt (int (input_features model))
            \<and> vh = PList (map (\<lambda>each. PInt (int (out_features each))) (hidden_layers model))
            \<and> vo = PInt (int (out_features (output_layer model)))
            \<and> (\<exists>sd. vs = PDict sd
                 \<and> (\<forall>key v. map_of sd key = Some v \<longrightarrow>
                       (\<exists>t. v = PTensor t \<and> map_of (named_parameters model) key = Some t)))"
    if ok: "load_checkpoint init fs filepath = Inr model" for model
  proof -
    obtain fresh where fresh: "Network init vi vo vh = Inr fresh"
      and l: "load_state_dict fresh vs = (model, None)"
      using returned [OF ok] by blast
    obtain sd where vs: "vs = PDict sd" and r: "\<not> unreadable fresh sd" and e: "error_msgs fresh sd = []"
      and model: "model = map_parameters (load_param sd) fresh"
      using load_state_dict_None [OF l] by blast
    have "vi = PInt (int (input_features model))"
      unfolding model using fresh by (rule Network_shape(1))
    moreover have "vo = PInt (int (out_features (output_layer model)))"
      unfolding model using fresh by (rule Network_shape(2))
    moreover have "vh = PList (map (\<lambda>each. PInt (int (out_features each))) (hidden_layers model))"
      unfolding model using fresh by (rule Network_shape(3))
    moreover have "\<exists>sd. vs = PDict sd
          \<and> (\<forall>key v. map_of sd key = Some v \<longrightarrow>
                (\<exists>t. v = PTensor t \<and> map_of (named_parameters model) key = Some t))"
      unfolding model using vs loaded_entries [OF r e] by blast
    ultimately show ?thesis by blast
  qed
  show ?thesis
    using steps exactly shape by blast
qed

text \<open>The file that the save cell writes for the network 784, 3, 2, 10.\<close>

theorem load_checkpoint_rebuilds_recorded_model_witness:
  "torch_load (save_checkpoint digits_model no_files) ''checkpoint.pth''
     = Inr (PDict [(''input_size'', PInt 784),
                   (''output_size'', PInt 10),
                   (''hidden_layers'', PList [PInt 3, PInt 2]),
                   (''state_dict'', state_dict digits_model)])
   \<and> load_checkpoint zeros (save_checkpoint digits_model no_files) ''checkpoint.pth'' = Inr digits_model
   \<and> (PInt 784 :: int pyval) = PInt (int (input_features digits_model))
   \<and> (PList [PInt 3, PInt 2] :: int pyval) = PList (map (\<lambda>each. PInt (int (out_features each))) (hidden_layers digits_model))
   \<and> (PInt 10 :: int pyval) = PInt (int (out_features (output_layer digits_model)))"
proof -
  let ?ckpt = "[(''input_size'', PInt 784),
                (''output_size'', PInt 10),
                (''hidden_layers'', PList [PInt 3, PInt 2]),
                (''state_dict'', state_dict digits_model)]"
  have f: "torch_load (save_checkpoint digits_model no_files) ''checkpoint.pth'' = Inr (PDict ?ckpt)"
    by (simp add: torch_load_def save_checkpoint_def torch_save_def checkpoint_def digits_model_def Linear_def)
  have k1: "map_of ?ckpt ''input_size'' = Some (PInt 784)" by simp
  have k2: "map_of ?ckpt ''output_size'' = Some (PInt 10)" by simp
  have k3: "map_of ?ckpt ''hidden_layers'' = Some (PList [PInt 3, PInt 2])" by simp
  have k4: "map_of ?ckpt ''state_dict'' = Some (state_dict digits_model)" by simp
  note t = load_checkpoint_rebuilds_recorded_model [OF f k1 k2 k3 k4, of zeros]
  have w: "well_formed digits_model"
    by (simp add: well_formed_def digits_model_def input_features_def linear_ok_def Linear_def)
  have l: "load_state_dict (fresh_like zeros digits_model) (state_dict digits_model) = (digits_model, None)"
    using w by (rule load_state_dict_roundtrip)
  have n: "Network zeros (PInt 784) (PInt 10) (PList [PInt 3, PInt 2]) = Inr (fresh_like zeros digits_model)"
    by (simp add: fresh_like_def digits_model_def input_features_def Linear_def)
  have ok: "load_checkpoint zeros (save_checkpoint digits_model no_files) ''checkpoint.pth'' = Inr digits_model"
    by (simp only: t [THEN conjunct1] n l sum.case prod.case option.case)
  note p = t [THEN conjunct2, THEN conjunct2, rule_format, OF ok]
  show ?thesis
    by (intro conjI f ok p [THEN conjunct1] p [THEN conjunct2, THEN conjunct1]
        p [THEN conjunct2, THEN conjunct2, THEN conjunct1])
qed

text \<open>
  C2 as the spec states it, a model returned for every record with the four keys, fails:
  for the record that has the four keys and an array under every parameter name, but a
  first weight of 3 columns where it records 2 inputs, the constructor builds the
  network and \<open>load_state_dict\<close> raises; no model is returned.
\<close>

theorem mismatched_record_counterexample:
  "torch_load mismatched_files ''checkpoint.pth'' = Inr mismatched_record
   \<and> getitem mismatched_record ''input_size'' = Inr (PInt 2)
   \<and> getitem mismatched_record ''output_size'' = Inr (PInt 1)
   \<and> getitem mismatched_record ''hidden_layers'' = Inr (PList [PInt 1])
   \<and> getitem mismatched_record ''state_dict'' = Inr (PDict mismatched_state_dict)
   \<and> load_checkpoint zeros mismatched_files ''checkpoint.pth''
       = Inl (RuntimeError [SizeMismatch ''hidden_layers.0.weight'' [1, 3] [1, 2]])"
  by (simp add: load_checkpoint_def torch_load_def mismatched_files_def mismatched_record_def
      mismatched_state_dict_def no_files_def
      named_parameters_def hidden_prefix_0 Linear_def
      unreadable_def error_msgs_def missing_keys_def unexpected_keys_def size_mismatches_def)

subsection \<open>When loading fails\<close>

text \<open>
  C3, as amended. Take a file that holds a record with the four keys, whose three sizes
  the constructor accepts and whose state dict maps names to arrays. Then
  \<open>load_checkpoint\<close> fails if and only if the names in the recorded state dict are
  not exactly the names of the parameters of the freshly constructed model, or some
  recorded array has another shape than the parameter of the same name. The failure is
  the RuntimeError that the framework's \<open>load_state_dict\<close> raises, and it reaches the
  caller unchanged: the code validates nothing, retries nothing and recovers nothing.
\<close>

theorem load_fails_on_names_or_shapes:
  assumes "torch_load fs filepath = Inr (PDict ckpt)"
    and "map_of ckpt ''input_size'' = Some vi"
    and "map_of ckpt ''output_size'' = Some vo"
    and "map_of ckpt ''hidden_layers'' = Some vh"
    and "map_of ckpt ''state_dict'' = Some (PDict sd)"
    and "Network init vi vo vh = Inr fresh"
    and "list_all is_tensor (map snd sd)"
  shows "(isl (load_checkpoint init fs filepath) \<longleftrightarrow>
            set (map fst sd) \<noteq> set (map fst (named_parameters fresh))
          \<or> (\<exists>key t t'. map_of sd key = Some (PTensor t)
                \<and> map_of (named_parameters fresh) key = Some t' \<and> shape t \<noteq> shape t'))
       \<and> (\<forall>e. load_checkpoint init fs filepath = Inl e \<longrightarrow>
              e = RuntimeError (error_msgs fresh sd)
            \<and> snd (load_state_dict fresh (PDict sd)) = Some e)"
proof -
  have r: "\<not> unreadable fresh sd"
    using assms(7) by (rule arrays_readable)
  have steps: "load_checkpoint init fs filepath =
          (if error_msgs fresh sd = [] then Inr (map_parameters (load_param sd) fresh)
           else Inl (RuntimeError (error_msgs fresh sd)))"
    unfolding load_checkpoint_record [OF assms(1-5)] assms(6) using r by simp
  have "isl (load_checkpoint init fs filepath) \<longleftrightarrow> error_msgs fresh sd \<noteq> []"
    unfolding steps by simp
  moreover have "e = RuntimeError (error_msgs fresh sd) \<and> snd (load_state_dict fresh (PDict sd)) = Some e"
    if "load_checkpoint init fs filepath = Inl e" for e
    using that r unfolding steps by (simp split: if_splits)
  ultimately show ?thesis
    unfolding error_msgs_nonempty by blast
qed

text \<open>
  The file that the save cell writes for the network 2, 1, 1: it records the sizes 784
  and 10, and the bias of the output layer has shape 1 in the file and 10 in the model.
\<close>

theorem load_fails_on_names_or_shapes_witness:
  "torch_load (save_checkpoint small_model no_files) ''checkpoint.pth''
     = Inr (PDict [(''input_size'', PInt 784),
                   (''output_size'', PInt 10),
                   (''hidden_layers'', PList [PInt 1]),
                   (''state_dict'', state_dict small_model)])
   \<and> Network zeros (PInt 784) (PInt 10) (PList [PInt 1])
       = Inr \<lparr>hidden_layers = [Linear zeros ''hidden_layers.0.'' 784 1],
              output_layer = Linear zeros ''output.'' 1 10\<rparr>
   \<and> isl (load_checkpoint zeros (save_checkpoint small_model no_files) ''checkpoint.pth'')
   \<and> map_of (named_parameters small_model) ''output.bias'' = Some (Tensor [1] (ones ''output.bias''))
   \<and> map_of (named_parameters \<lparr>hidden_layers = [Linear zeros ''hidden_layers.0.'' 784 1],
                                 output_layer = Linear zeros ''output.'' 1 10\<rparr>) ''output.bias''
       = Some (Tensor [10] (zeros ''output.bias''))"
proof -
  let ?sd = "map (\<lambda>(key, t). (key, PTensor t)) (named_parameters small_model)"
  let ?ckpt = "[(''input_size'', PInt 784),
                (''output_size'', PInt 10),
                (''hidden_layers'', PList [PInt 1]),
                (''state_dict'', PDict ?sd)]"
  let ?fresh = "\<lparr>hidden_layers = [Linear zeros ''hidden_layers.0.'' 784 1],
                 output_layer = Linear zeros ''output.'' 1 10\<rparr>"
  have f: "torch_load (save_checkpoint small_model no_files) ''checkpoint.pth'' = Inr (PDict ?ckpt)"
    by (simp add: torch_load_def save_checkpoint_def torch_save_def checkpoint_def small_model_def
        Linear_def state_dict_def)
  have k1: "map_of ?ckpt ''input_size'' = Some (PInt 784)" by simp
  have k2: "map_of ?ckpt ''output_size'' = Some (PInt 10)" by simp
  have k3: "map_of ?ckpt ''hidden_layers'' = Some (PList [PInt 1])" by simp
  have k4: "map_of ?ckpt ''state_dict'' = Some (PDict ?sd)" by simp
  have n: "Network zeros (PInt 784) (PInt 10) (PList [PInt 1]) = Inr ?fresh"
    by (simp add: hidden_prefix_0)
  have a: "list_all is_tensor (map snd ?sd)"
    by (rule state_dict_arrays)
  have s: "map_of ?sd ''output.bias'' = Some (PTensor (Tensor [1] (ones ''output.bias'')))"
    by (simp add: named_parameters_def small_model_def Linear_def hidden_prefix_0)
  have p: "map_of (named_parameters small_model) ''output.bias'' = Some (Tensor [1] (ones ''output.bias''))"
    by (simp add: named_parameters_def small_model_def Linear_def hidden_prefix_0)
  have q: "map_of (named_parameters ?fresh) ''output.bias'' = Some (Tensor [10] (zeros ''output.bias''))"
    by (simp add: named_parameters_def Linear_def hidden_prefix_0)
  have "\<exists>key t t'. map_of ?sd key = Some (PTensor t)
          \<and> map_of (named_parameters ?fresh) key = Some t' \<and> shape t \<noteq> shape t'"
    using s q by (intro exI [of _ "''output.bias''"] exI [of _ "Tensor [1] (ones ''output.bias'')"]
        exI [of _ "Tensor [10] (zeros ''output.bias'')"]) simp
  then have "isl (load_checkpoint zeros (save_checkpoint small_model no_files) ''checkpoint.pth'')"
    using load_fails_on_names_or_shapes [OF f k1 k2 k3 k4 n a] by blast
  then show ?thesis
    using f n p q by (simp add: state_dict_def)
qed

text \<open>
  C3 as the spec states it, failure if and only if shapes mismatch, fails: a record with
  the four keys whose state dict has every array of the right shape, but no array for
  \<open>output.bias\<close>, makes \<open>load_checkpoint\<close> fail; the only complaint is the
  missing key, and between the recorded arrays and the network that the constructor
  builds no shape mismatches.
\<close>

theorem missing_parameter_counterexample:
  "load_checkpoint zeros partial_files ''checkpoint.pth'' = Inl (RuntimeError [MissingKeys [''output.bias'']])
   \<and> Network zeros (PInt 2) (PInt 1) (PList [PInt 1]) = Inr (fresh_like zeros small_model)
   \<and> size_mismatches (fresh_like zeros small_model) partial_state_dict = []"
  by (simp add: load_checkpoint_def torch_load_def partial_files_def no_files_def partial_state_dict_def
      fresh_like_def small_model_def input_features_def
      named_parameters_def hidden_prefix_0 Linear_def
      unreadable_def error_msgs_def missing_keys_def unexpected_keys_def size_mismatches_def)

subsection \<open>Records that lack a key\<close>

text \<open>
  C9, as amended. For every mapping that lacks one of the four keys,
  \<open>load_checkpoint\<close> on a file containing it returns no model; no default value is
  supplied and no key is checked before the record is indexed. The exception is the
  KeyError of the first missing key among \<open>input_size\<close>, \<open>output_size\<close> and
  \<open>hidden_layers\<close>. When only \<open>state_dict\<close> is missing, the constructor runs
  first: if it accepts the three recorded values the exception is the KeyError of
  \<open>state_dict\<close>, and otherwise it is the constructor's own.
\<close>

theorem missing_key_never_loads:
  assumes "torch_load fs filepath = Inr (PDict ckpt)"
    and "map_of ckpt ''input_size'' = None \<or> map_of ckpt ''output_size'' = None
       \<or> map_of ckpt ''hidden_layers'' = None \<or> map_of ckpt ''state_dict'' = None"
  shows "isl (load_checkpoint init fs filepath)
       \<and> (map_of ckpt ''input_size'' = None \<longrightarrow>
            load_checkpoint init fs filepath = Inl (KeyError ''input_size''))
       \<and> (map_of ckpt ''input_size'' \<noteq> None \<and> map_of ckpt ''output_size'' = None \<longrightarrow>
            load_checkpoint init fs filepath = Inl (KeyError ''output_size''))
       \<and> (map_of ckpt ''input_size'' \<noteq> None \<and> map_of ckpt ''output_size'' \<noteq> None
            \<and> map_of ckpt ''hidden_layers'' = None \<longrightarrow>
            load_checkpoint init fs filepath = Inl (KeyError ''hidden_layers''))
       \<and> (\<forall>vi vo vh. map_of ckpt ''input_size'' = Some vi \<and> map_of ckpt ''output_size'' = Some vo
            \<and> map_of ckpt ''hidden_layers'' = Some vh \<longrightarrow>
            load_checkpoint init fs filepath =
              (case Network init vi vo vh of
                 Inl e \<Rightarrow> Inl e
               | Inr fresh \<Rightarrow> Inl (KeyError ''state_dict'')))"
proof -
  have 1: "load_checkpoint init fs filepath = Inl (KeyError ''input_size'')"
    if "map_of ckpt ''input_size'' = None"
    using that assms(1) by (simp add: load_checkpoint_def)
  have 2: "load_checkpoint init fs filepath = Inl (KeyError ''output_size'')"
    if "map_of ckpt ''input_size'' \<noteq> None" and "map_of ckpt ''output_size'' = None"
    using that assms(1) by (auto simp: load_checkpoint_def)
  have 3: "load_checkpoint init fs filepath = Inl (KeyError ''hidden_layers'')"
    if "map_of ckpt ''input_size'' \<noteq> None" and "map_of ckpt ''output_size'' \<noteq> None"
      and "map_of ckpt ''hidden_layers'' = None"
    using that assms(1) by (auto simp: load_checkpoint_def)
  have 4: "load_checkpoint init fs filepath =
             (case Network init vi vo vh of
                Inl e \<Rightarrow> Inl e
              | Inr fresh \<Rightarrow> Inl (KeyError ''state_dict''))"
    if "map_of ckpt ''input_size'' = Some vi" and "map_of ckpt ''output_size'' = Some vo"
      and "map_of ckpt ''hidden_layers'' = Some vh" for vi vo vh
  proof -
    have "map_of ckpt ''state_dict'' = None"
      using that assms(2) by auto
    then show ?thesis
      using that assms(1) by (simp add: load_checkpoint_def split: sum.splits)
  qed
  have "isl (load_checkpoint init fs filepath)"
  proof (cases "map_of ckpt ''input_size''")
    case None
    then show ?thesis using 1 by simp
  next
    case vi: (Some vi)
    show ?thesis
    proof (cases "map_of ckpt ''output_size''")
      case None
      then show ?thesis using 2 vi by simp
    next
      case vo: (Some vo)
      show ?thesis
      proof (cases "map_of ckpt ''hidden_layers''")
        case None
        then show ?thesis using 3 vi vo by simp
      next
        case (Some vh)
        then show ?thesis using 4 [OF vi vo] by (simp split: sum.splits)
      qed
    qed
  qed
  then show ?thesis
    using 1 2 3 4 by blast
qed

text \<open>
  The first file that the notebook writes holds the state dict alone; it has no key
  \<open>input_size\<close>.
\<close>

theorem missing_key_never_loads_witness:
  "torch_load (torch_save (state_dict small_model) ''checkpoint.pth'' no_files) ''checkpoint.pth''
     = Inr (state_dict small_model)
   \<and> getitem (state_dict small_model) ''input_size'' = Inl (KeyError ''input_size'')
   \<and> isl (load_checkpoint zeros (torch_save (state_dict small_model) ''checkpoint.pth'' no_files) ''checkpoint.pth'')
   \<and> load_checkpoint zeros (torch_save (state_dict small_model) ''checkpoint.pth'' no_files) ''checkpoint.pth''
       = Inl (KeyError ''input_size'')"
proof -
  let ?sd = "map (\<lambda>(key, t). (key, PTensor t)) (named_parameters small_model)"
  have f: "torch_load (torch_save (state_dict small_model) ''checkpoint.pth'' no_files) ''checkpoint.pth''
             = Inr (PDict ?sd)"
    by (simp add: torch_load_def torch_save_def state_dict_def)
  have k: "map_of ?sd ''input_size'' = None"
    by (simp add: named_parameters_def small_model_def hidden_prefix_0)
  then have m: "map_of ?sd ''input_size'' = None \<or> map_of ?sd ''output_size'' = None
       \<or> map_of ?sd ''hidden_layers'' = None \<or> map_of ?sd ''state_dict'' = None"
    by (rule disjI1)
  note t = missing_key_never_loads [OF f m, of zeros]
  show ?thesis
    using f k t [THEN conjunct1] t [THEN conjunct2, THEN conjunct1, rule_format, OF k]
    by (simp add: state_dict_def)
qed

text \<open>
  C9 as the spec states it, a key-lookup error for every such mapping, fails: for a
  record without \<open>state_dict\<close> whose list of hidden widths is empty, the
  constructor raises IndexError before \<open>checkpoint['state_dict']\<close> is evaluated.
\<close>

theorem constructor_first_counterexample:
  "torch_load no_hidden_files ''checkpoint.pth'' = Inr no_hidden_record
   \<and> getitem no_hidden_record ''state_dict'' = Inl (KeyError ''state_dict'')
   \<and> load_checkpoint zeros no_hidden_files ''checkpoint.pth'' = Inl IndexError"
  by (simp add: load_checkpoint_def torch_load_def no_hidden_files_def no_hidden_record_def no_files_def)

subsection \<open>The record that the save cell writes\<close>

text \<open>
  C4. For every model and whatever is on the disk, the file written by the save cell
  holds a mapping with exactly the four keys \<open>input_size\<close>, \<open>output_size\<close>,
  \<open>hidden_layers\<close> and \<open>state_dict\<close>, in this order and no other key: two
  integers, the list of the \<open>out_features\<close> of the hidden layers of the saved model
  in layer order, and a mapping whose keys are the names of the model's parameters, each
  once, and whose values are arrays.
\<close>

theorem checkpoint_record_has_four_keys:
  "\<exists>d sd. save_checkpoint model fs ''checkpoint.pth'' = Some (PDict d)
     \<and> map fst d = [''input_size'', ''output_size'', ''hidden_layers'', ''state_dict'']
     \<and> map_of d ''input_size'' = Some (PInt 784)
     \<and> map_of d ''output_size'' = Some (PInt 10)
     \<and> map_of d ''hidden_layers''
         = Some (PList (map (\<lambda>each. PInt (int (out_features each))) (hidden_layers model)))
     \<and> map_of d ''state_dict'' = Some (PDict sd)
     \<and> map fst sd = map fst (named_parameters model)
     \<and> distinct (map fst sd)
     \<and> list_all is_tensor (map snd sd)"
proof -
  let ?sd = "map (\<lambda>(key, t). (key, PTensor t)) (named_parameters model)"
  let ?d = "[(''input_size'', PInt 784),
             (''output_size'', PInt 10),
             (''hidden_layers'', PList (map (\<lambda>each. PInt (int (out_features each))) (hidden_layers model))),
             (''state_dict'', PDict ?sd)]"
  have "save_checkpoint model fs ''checkpoint.pth'' = Some (PDict ?d)"
    by (simp add: save_checkpoint_def torch_save_def checkpoint_def state_dict_def)
  moreover have "map fst ?sd = map fst (named_parameters model)"
    by (rule state_dict_keys)
  moreover from this have "distinct (map fst ?sd)"
    using distinct_names [of model] by (simp only:)
  moreover have "list_all is_tensor (map snd ?sd)"
    by (rule state_dict_arrays)
  ultimately show ?thesis
    by (intro exI [of _ ?d] exI [of _ ?sd]) simp
qed

lemma hidden_parameters_nth:
  assumes "i < length ls"
  shows "(hidden_prefix (k + i) @ ''weight'', weight (ls ! i)) \<in> set (hidden_parameters k ls)"
    and "(hidden_prefix (k + i) @ ''bias'', bias (ls ! i)) \<in> set (hidden_parameters k ls)"
  using assms
proof (induction ls arbitrary: k i)
  case Nil
  { case 1 then show ?case by simp }
  { case 2 then show ?case by simp }
next
  case (Cons l ls)
  { case 1
    show ?case
    proof (cases i)
      case 0
      then show ?thesis by simp
    next
      case (Suc j)
      then have "(hidden_prefix (Suc k + j) @ ''weight'', weight (ls ! j)) \<in> set (hidden_parameters (Suc k) ls)"
        using 1 by (intro Cons.IH(1)) simp
      then show ?thesis using Suc by simp
    qed }
  { case 2
    show ?case
    proof (cases i)
      case 0
      then show ?thesis by simp
    next
      case (Suc j)
      then have "(hidden_prefix (Suc k + j) @ ''bias'', bias (ls ! j)) \<in> set (hidden_parameters (Suc k) ls)"
        using 2 by (intro Cons.IH(2)) simp
      then show ?thesis using Suc by simp
    qed }
qed

text \<open>
  C5. For every model whose hidden layers are as the framework builds them, and every
  index \<open>i\<close> of a hidden layer: the \<open>i\<close>-th entry of the recorded
  \<open>hidden_layers\<close> is the output dimension of the arrays that the recorded state
  dict holds for that layer, the first dimension of \<open>hidden_layers.i.weight\<close> and
  the only dimension of \<open>hidden_layers.i.bias\<close>.
\<close>

theorem checkpoint_widths_match_arrays:
  assumes "list_all linear_ok (hidden_layers model)" and "i < length (hidden_layers model)"
  shows "\<exists>widths sd n w b.
           getitem (checkpoint model) ''hidden_layers'' = Inr (PList widths)
         \<and> getitem (checkpoint model) ''state_dict'' = Inr (PDict sd)
         \<and> widths ! i = PInt (int n)
         \<and> map_of sd (''hidden_layers.'' @ str i @ ''.weight'') = Some (PTensor w)
         \<and> map_of sd (''hidden_layers.'' @ str i @ ''.bias'') = Some (PTensor b)
         \<and> shape w = [n, in_features (hidden_layers model ! i)]
         \<and> shape b = [n]"
proof -
  let ?l = "hidden_layers model ! i"
  let ?sd = "map (\<lambda>(key, t). (key, PTensor t)) (named_parameters model)"
  let ?widths = "map (\<lambda>each. PInt (int (out_features each))) (hidden_layers model)"
  have ok: "linear_ok ?l"
    using assms by (simp add: list_all_length)
  have "(hidden_prefix i @ ''weight'', weight ?l) \<in> set (named_parameters model)"
    using hidden_parameters_nth(1) [OF assms(2), of 0] by (simp add: named_parameters_def)
  then have w: "map_of ?sd (''hidden_layers.'' @ str i @ ''.weight'') = Some (PTensor (weight ?l))"
    using state_dict_lookup [of "(hidden_prefix i @ ''weight'', weight ?l)" model]
    by (simp add: hidden_prefix_def)
  have "(hidden_prefix i @ ''bias'', bias ?l) \<in> set (named_parameters model)"
    using hidden_parameters_nth(2) [OF assms(2), of 0] by (simp add: named_parameters_def)
  then have b: "map_of ?sd (''hidden_layers.'' @ str i @ ''.bias'') = Some (PTensor (bias ?l))"
    using state_dict_lookup [of "(hidden_prefix i @ ''bias'', bias ?l)" model]
    by (simp add: hidden_prefix_def)
  have 1: "getitem (checkpoint model) ''hidden_layers'' = Inr (PList ?widths)"
    by (simp add: checkpoint_def)
  have 2: "getitem (checkpoint model) ''state_dict'' = Inr (PDict ?sd)"
    by (simp add: checkpoint_def state_dict_def)
  have 3: "?widths ! i = PInt (int (out_features ?l))"
    using assms(2) by simp
  have 4: "shape (weight ?l) = [out_features ?l, in_features ?l]" and 5: "shape (bias ?l) = [out_features ?l]"
    using ok by (simp_all add: linear_ok_def)
  show ?thesis
    by (intro exI [of _ ?widths] exI [of _ ?sd] exI [of _ "out_features ?l"]
        exI [of _ "weight ?l"] exI [of _ "bias ?l"] conjI 1 2 3 4 5 w b)
qed

text \<open>The second hidden layer of the network 784, 3, 2, 10.\<close>

theorem checkpoint_widths_match_arrays_witness:
  "list_all linear_ok (hidden_layers digits_model) \<and> 1 < length (hidden_layers digits_model)
   \<and> (\<exists>widths sd n w b.
           getitem (checkpoint digits_model) ''hidden_layers'' = Inr (PList widths)
         \<and> getitem (checkpoint digits_model) ''state_dict'' = Inr (PDict sd)
         \<and> widths ! 1 = PInt (int n)
         \<and> map_of sd ''hidden_layers.1.weight'' = Some (PTensor w)
         \<and> map_of sd ''hidden_layers.1.bias'' = Some (PTensor b)
         \<and> shape w = [n, 3]
         \<and> shape b = [n])"
proof -
  have a: "list_all linear_ok (hidden_layers digits_model)"
    by (simp add: digits_model_def linear_ok_def Linear_def)
  have b: "1 < length (hidden_layers digits_model)"
    by (simp add: digits_model_def)
  have s: "''hidden_layers.'' @ str 1 @ ''.weight'' = ''hidden_layers.1.weight''"
    "''hidden_layers.'' @ str 1 @ ''.bias'' = ''hidden_layers.1.bias''"
    using hidden_prefix_1 by (simp_all add: hidden_prefix_def)
  have i: "in_features (hidden_layers digits_model ! 1) = 3"
    by (simp add: digits_model_def Linear_def)
  show ?thesis
    using checkpoint_widths_match_arrays [OF a b] a b unfolding s i by simp
qed

subsection \<open>What the notebook saves\<close>

text \<open>
  C6 says that the arrays in the record are the values that the model reached through
  training, as the notebook's own text does ("Now the checkpoint has all the necessary
  information to rebuild the trained model"). The cells do otherwise. The "Try this"
  cell binds \<open>model\<close> to a new network 784, 400, 200, 100, and its
  \<open>load_state_dict\<close> raises; the save cell then runs on that network. Whatever the
  initial values \<open>init\<close> and the learned values are, the record holds the widths
  400, 200, 100 and the initial values \<open>init'\<close> of the new network for every array
  but \<open>output.bias\<close>, the one array whose shape is the same in both networks, which
  the failed call had overwritten before raising.
\<close>

theorem notebook_saves_the_untrained_network:
  "notebook init learned init' fs =
     Inr (fs(''checkpoint.pth'' \<mapsto>
       PDict [(''input_size'', PInt 784),
              (''output_size'', PInt 10),
              (''hidden_layers'', PList [PInt 400, PInt 200, PInt 100]),
              (''state_dict'',
                 PDict [(''hidden_layers.0.weight'', PTensor (Tensor [400, 784] (init' ''hidden_layers.0.weight''))),
                        (''hidden_layers.0.bias'', PTensor (Tensor [400] (init' ''hidden_layers.0.bias''))),
                        (''hidden_layers.1.weight'', PTensor (Tensor [200, 400] (init' ''hidden_layers.1.weight''))),
                        (''hidden_layers.1.bias'', PTensor (Tensor [200] (init' ''hidden_layers.1.bias''))),
                        (''hidden_layers.2.weight'', PTensor (Tensor [100, 200] (init' ''hidden_layers.2.weight''))),
                        (''hidden_layers.2.bias'', PTensor (Tensor [100] (init' ''hidden_layers.2.bias''))),
                        (''output.weight'', PTensor (Tensor [10, 100] (init' ''output.weight''))),
                        (''output.bias'', PTensor (Tensor [10] (learned ''output.bias'')))])]))"
  by (simp add: notebook_def train_def map_parameters_def map_linear_def Linear_def
      hidden_prefix_0 hidden_prefix_1 hidden_prefix_2
      torch_save_def torch_load_def state_dict_def named_parameters_def
      unreadable_def load_param_def tensor_copy_def
      save_checkpoint_def checkpoint_def)

end
